theory Spec2Isabelle
  imports Complex_Main "HOL-Library.Multiset"
begin

section \<open>Python values read from annotation files\<close>

text \<open>
  Every script of the pipeline reads annotation records with \<^verbatim>\<open>json.load\<close>. The value it
  returns is modelled by \<open>json\<close>. A number is the rational it denotes (an \<^verbatim>\<open>int\<close> or a
  finite \<^verbatim>\<open>float\<close>; the non-standard literals NaN and Infinity are left out). An object is
  the list of its members in file order: \<^verbatim>\<open>json.load\<close> keeps the last value of a repeated
  key, so a lookup reads the member list from the right and the length of the resulting
  \<^verbatim>\<open>dict\<close> is the number of distinct keys. A \<open>string\<close> stands for a Python \<^verbatim>\<open>str\<close>, one
  \<open>char\<close> per code point.
\<close>

datatype json =
    JNull
  | JBool bool
  | JNum rat
  | JStr string
  | JArr "json list"
  | JObj "(string \<times> json) list"

text \<open>What \<^verbatim>\<open>open\<close> followed by \<^verbatim>\<open>json.load\<close> yields for one file: a
  \<^verbatim>\<open>json.JSONDecodeError\<close>, any other exception (both with their message), or a value.\<close>

datatype file_data =
    Invalid_JSON_file string
  | Unreadable_file string
  | Parsed json

text \<open>The exceptions that the modelled code can raise outside a \<^verbatim>\<open>try\<close> block.\<close>

datatype exn =
    TypeError
  | AttributeError
  | NotRenderableError
  | MarkupError
  | OSError
  | KeyError
  | NameError string

subsection \<open>Operators of the language on these values\<close>

text \<open>\<^verbatim>\<open>a == b\<close>: \<^verbatim>\<open>True\<close> and \<^verbatim>\<open>False\<close> are the numbers 1 and 0, lists are compared
  element by element, dictionaries key by key whatever their order.\<close>

fun num_val :: "json \<Rightarrow> rat option" where
  "num_val (JBool b) = Some (if b then 1 else 0)"
| "num_val (JNum q) = Some q"
| "num_val _ = None"

definition dict_get :: "(string \<times> json) list \<Rightarrow> string \<Rightarrow> json option" where
  "dict_get kvs k = map_of (rev kvs) k"

definition dict_keys :: "(string \<times> json) list \<Rightarrow> string list" where
  "dict_keys kvs = remdups (map fst kvs)"

fun py_eq :: "json \<Rightarrow> json \<Rightarrow> bool"
  and py_eq_list :: "json list \<Rightarrow> json list \<Rightarrow> bool"
  and py_eq_items :: "(string \<times> json) list \<Rightarrow> (string \<times> json) list \<Rightarrow> bool"
where
  "py_eq JNull b = (b = JNull)"
| "py_eq (JBool x) b = (num_val b = Some (if x then 1 else 0))"
| "py_eq (JNum q) b = (num_val b = Some q)"
| "py_eq (JStr s) b = (b = JStr s)"
| "py_eq (JArr xs) b = (case b of JArr ys \<Rightarrow> py_eq_list xs ys | _ \<Rightarrow> False)"
| "py_eq (JObj kvs) b =
     (case b of
        JObj kvs' \<Rightarrow> length (dict_keys kvs) = length (dict_keys kvs') \<and> py_eq_items kvs kvs'
      | _ \<Rightarrow> False)"
| "py_eq_list [] ys = (ys = [])"
| "py_eq_list (x # xs) ys = (case ys of [] \<Rightarrow> False | y # ys' \<Rightarrow> py_eq x y \<and> py_eq_list xs ys')"
| "py_eq_items [] kvs' = True"
| "py_eq_items ((k, v) # kvs) kvs' =
     ((k \<in> fst ` set kvs \<or>
       (case dict_get kvs' k of None \<Rightarrow> False | Some w \<Rightarrow> py_eq v w)) \<and>
      py_eq_items kvs kvs')"

text \<open>Substring test, for \<^verbatim>\<open>x in s\<close> on two strings.\<close>

fun is_prefix :: "string \<Rightarrow> string \<Rightarrow> bool" where
  "is_prefix [] t = True"
| "is_prefix (c # s) [] = False"
| "is_prefix (c # s) (d # t) = (c = d \<and> is_prefix s t)"

fun is_substring :: "string \<Rightarrow> string \<Rightarrow> bool" where
  "is_substring s [] = (s = [])"
| "is_substring s (d # t) = (is_prefix s (d # t) \<or> is_substring s t)"

text \<open>\<^verbatim>\<open>key in data\<close> for a string \<open>key\<close>: key membership on a dictionary, element
  membership on a list, substring on a string, \<^verbatim>\<open>TypeError\<close> on anything else.\<close>

fun py_contains :: "json \<Rightarrow> string \<Rightarrow> exn + bool" where
  "py_contains (JObj kvs) k = Inr (k \<in> set (dict_keys kvs))"
| "py_contains (JArr xs) k = Inr (JStr k \<in> set xs)"
| "py_contains (JStr s) k = Inr (is_substring k s)"
| "py_contains _ k = Inl TypeError"

text \<open>\<^verbatim>\<open>data[key]\<close> for a string \<open>key\<close>.\<close>

fun py_getitem :: "json \<Rightarrow> string \<Rightarrow> exn + json" where
  "py_getitem (JObj kvs) k = (case dict_get kvs k of None \<Rightarrow> Inl KeyError | Some v \<Rightarrow> Inr v)"
| "py_getitem _ k = Inl TypeError"

text \<open>\<^verbatim>\<open>data.get(key, default)\<close>: only a dictionary has the method.\<close>

fun py_get :: "json \<Rightarrow> string \<Rightarrow> json \<Rightarrow> exn + json" where
  "py_get (JObj kvs) k d = (case dict_get kvs k of None \<Rightarrow> Inr d | Some v \<Rightarrow> Inr v)"
| "py_get _ k d = Inl AttributeError"

text \<open>\<^verbatim>\<open>len(x)\<close>.\<close>

fun py_len :: "json \<Rightarrow> exn + nat" where
  "py_len (JObj kvs) = Inr (length (dict_keys kvs))"
| "py_len (JArr xs) = Inr (length xs)"
| "py_len (JStr s) = Inr (length s)"
| "py_len _ = Inl TypeError"

fun is_dict :: "json \<Rightarrow> bool" where
  "is_dict (JObj kvs) = True"
| "is_dict _ = False"

text \<open>Sequencing of steps that may raise.\<close>

fun and_then :: "exn + 'a \<Rightarrow> ('a \<Rightarrow> exn + 'b) \<Rightarrow> exn + 'b" where
  "and_then (Inl e) f = Inl e"
| "and_then (Inr x) f = f x"

section \<open>The structural validator (validate\_annotations.py)\<close>

text \<open>
  \<^verbatim>\<open>validate_annotation\<close> returns a flag and a list of issue strings. An issue is kept here
  as a value of \<open>issue\<close>, one constructor per message of the source, with the values that
  the message interpolates:
  \<^item> \<open>Invalid_JSON e\<close>: \<^verbatim>\<open>Invalid JSON: {e}\<close>;
  \<^item> \<open>Error_reading_file e\<close>: \<^verbatim>\<open>Error reading file: {e}\<close>;
  \<^item> \<open>Missing_required_field f\<close>: \<^verbatim>\<open>Missing required field: '{field}'\<close>;
  \<^item> \<open>Invalid_document_type v\<close>: \<^verbatim>\<open>Invalid document_type: '{v}' (must be one of ...)\<close>;
  \<^item> \<open>Entities_not_dict\<close>: \<^verbatim>\<open>'entities' must be a dictionary\<close>;
  \<^item> \<open>Mismatched_document_type t e\<close>: \<^verbatim>\<open>Mismatched document_type: top='{t}' vs entities='{e}'\<close>;
  \<^item> \<open>Invoice_missing_number\<close>: \<^verbatim>\<open>Invoice missing 'invoice_number'\<close>;
  \<^item> \<open>Purchase_order_missing_number\<close>: \<^verbatim>\<open>Purchase order missing 'po_number'\<close>;
  \<^item> \<open>Shipping_order_missing_number\<close>: \<^verbatim>\<open>Shipping order missing 'order_number'\<close>;
  \<^item> \<open>Entities_no_data\<close>: \<^verbatim>\<open>'entities' has no actual data (only document_type)\<close>, the
    empty-annotation issue;
  \<^item> \<open>Metadata_not_dict\<close>: \<^verbatim>\<open>'annotation_metadata' must be a dictionary\<close>.
\<close>

datatype issue =
    Invalid_JSON string
  | Error_reading_file string
  | Missing_required_field string
  | Invalid_document_type json
  | Entities_not_dict
  | Mismatched_document_type json json
  | Invoice_missing_number
  | Purchase_order_missing_number
  | Shipping_order_missing_number
  | Entities_no_data
  | Metadata_not_dict

definition required_top_level :: "string list" where
  "required_top_level = [''document_id'', ''filename'', ''document_type'', ''entities'']"

definition valid_types :: "string list" where
  "valid_types = [''invoice'', ''purchase_order'', ''shipping_order'']"

text \<open>Lines 31 to 33: one issue for each required field that is not in \<open>data\<close>.\<close>

fun check_required :: "json \<Rightarrow> string list \<Rightarrow> issue list \<Rightarrow> exn + issue list" where
  "check_required data [] issues = Inr issues"
| "check_required data (field # fields) issues =
     and_then (py_contains data field) (\<lambda>present.
       check_required data fields
         (if present then issues else issues @ [Missing_required_field field]))"

text \<open>Lines 36 to 39.\<close>

definition check_document_type :: "json \<Rightarrow> issue list \<Rightarrow> exn + issue list" where
  "check_document_type data issues =
     and_then (py_contains data ''document_type'') (\<lambda>present.
       if present then
         and_then (py_getitem data ''document_type'') (\<lambda>v.
           Inr (if list_ex (\<lambda>t. py_eq v (JStr t)) valid_types then issues
                else issues @ [Invalid_document_type v]))
       else Inr issues)"

text \<open>Lines 49 to 51, inside the branch where \<open>entities\<close> is a dictionary.\<close>

definition check_mismatch :: "json \<Rightarrow> json \<Rightarrow> issue list \<Rightarrow> exn + issue list" where
  "check_mismatch data entities issues =
     and_then (py_contains entities ''document_type'') (\<lambda>in_entities.
       if in_entities then
         and_then (py_contains data ''document_type'') (\<lambda>in_data.
           if in_data then
             and_then (py_getitem entities ''document_type'') (\<lambda>e.
               and_then (py_getitem data ''document_type'') (\<lambda>t.
                 Inr (if \<not> py_eq e t then issues @ [Mismatched_document_type t e]
                      else issues)))
           else Inr issues)
       else Inr issues)"

text \<open>Lines 54 to 66: the identifier that each document type requires.\<close>

definition check_identifier :: "json \<Rightarrow> json \<Rightarrow> issue list \<Rightarrow> exn + issue list" where
  "check_identifier data entities issues =
     and_then (py_get data ''document_type'' JNull) (\<lambda>doc_type.
       if py_eq doc_type (JStr ''invoice'') then
         and_then (py_contains entities ''invoice_number'') (\<lambda>present.
           Inr (if present then issues else issues @ [Invoice_missing_number]))
       else if py_eq doc_type (JStr ''purchase_order'') then
         and_then (py_contains entities ''po_number'') (\<lambda>present.
           Inr (if present then issues else issues @ [Purchase_order_missing_number]))
       else if py_eq doc_type (JStr ''shipping_order'') then
         and_then (py_contains entities ''order_number'') (\<lambda>present.
           Inr (if present then issues else issues @ [Shipping_order_missing_number]))
       else Inr issues)"

text \<open>Lines 69 and 70.\<close>

definition check_empty :: "json \<Rightarrow> issue list \<Rightarrow> exn + issue list" where
  "check_empty entities issues =
     and_then (py_len entities) (\<lambda>n.
       Inr (if n \<le> 1 then issues @ [Entities_no_data] else issues))"

text \<open>Lines 42 to 70.\<close>

definition check_entities :: "json \<Rightarrow> issue list \<Rightarrow> exn + issue list" where
  "check_entities data issues =
     and_then (py_contains data ''entities'') (\<lambda>present.
       if present then
         and_then (py_getitem data ''entities'') (\<lambda>entities.
           if \<not> is_dict entities then Inr (issues @ [Entities_not_dict])
           else
             and_then (check_mismatch data entities issues) (\<lambda>issues.
               and_then (check_identifier data entities issues) (\<lambda>issues.
                 check_empty entities issues)))
       else Inr issues)"

text \<open>Lines 73 to 76.\<close>

definition check_metadata :: "json \<Rightarrow> issue list \<Rightarrow> exn + issue list" where
  "check_metadata data issues =
     and_then (py_contains data ''annotation_metadata'') (\<lambda>present.
       if present then
         and_then (py_getitem data ''annotation_metadata'') (\<lambda>metadata.
           Inr (if \<not> is_dict metadata then issues @ [Metadata_not_dict] else issues))
       else Inr issues)"

text \<open>The whole function. A file that does not load is reported as one issue at once;
  nothing in the rest of the body is inside a \<^verbatim>\<open>try\<close>, so an exception there leaves the
  function (\<open>Inl\<close>).\<close>

definition validate_annotation :: "file_data \<Rightarrow> exn + (bool \<times> issue list)" where
  "validate_annotation fd =
     (case fd of
        Invalid_JSON_file e \<Rightarrow> Inr (False, [Invalid_JSON e])
      | Unreadable_file e \<Rightarrow> Inr (False, [Error_reading_file e])
      | Parsed data \<Rightarrow>
          and_then (check_required data required_top_level []) (\<lambda>issues.
            and_then (check_document_type data issues) (\<lambda>issues.
              and_then (check_entities data issues) (\<lambda>issues.
                and_then (check_metadata data issues) (\<lambda>issues.
                  Inr (length issues = 0, issues))))))"

text \<open>The record of the specification's fifth testable property.\<close>

definition empty_invoice :: json where
  "empty_invoice =
     JObj [(''document_id'', JStr ''x''), (''filename'', JStr ''x.pdf''),
           (''document_type'', JStr ''invoice''),
           (''entities'', JObj [(''document_type'', JStr ''invoice'')])]"

text \<open>The record of the fourth testable property, a minimal well-formed invoice.\<close>

definition minimal_invoice :: json where
  "minimal_invoice =
     JObj [(''document_id'', JStr ''inv1''), (''filename'', JStr ''inv1.pdf''),
           (''document_type'', JStr ''invoice''),
           (''entities'', JObj [(''document_type'', JStr ''invoice''),
                                (''invoice_number'', JStr ''INV-001''),
                                (''total'', JNum 100)])]"


subsection \<open>The statistics extractor\<close>

text \<open>
  \<^verbatim>\<open>get_annotation_stats\<close> returns a dictionary with the five keys below, or the empty
  dictionary \<^verbatim>\<open>{}\<close> (here \<open>None\<close>) when anything in its body raises: the whole body is
  inside \<^verbatim>\<open>try: ... except: return {}\<close>.
\<close>

record annotation_stats =
  document_type :: json
  field_count :: nat
  items_count :: nat
  has_seller_buyer :: bool
  has_amounts :: bool

text \<open>Lines 92 to 96 (and, word for word, lines 42 to 45 of data\_quality\_report.py):
  the \<^verbatim>\<open>elif\<close> looks at \<^verbatim>\<open>cargo_items\<close> only when \<^verbatim>\<open>line_items\<close> is not a key.\<close>

definition count_items :: "json \<Rightarrow> exn + nat" where
  "count_items entities =
     and_then (py_contains entities ''line_items'') (\<lambda>has_line_items.
       if has_line_items then
         and_then (py_get entities ''line_items'' (JArr [])) py_len
       else
         and_then (py_contains entities ''cargo_items'') (\<lambda>has_cargo_items.
           if has_cargo_items then
             and_then (py_get entities ''cargo_items'' (JArr [])) py_len
           else Inr 0))"

text \<open>\<^verbatim>\<open>k1 in entities or k2 in entities or ...\<close>, evaluated from the left.\<close>

fun any_key_in :: "json \<Rightarrow> string list \<Rightarrow> exn + bool" where
  "any_key_in entities [] = Inr False"
| "any_key_in entities (k # ks) =
     and_then (py_contains entities k) (\<lambda>present.
       if present then Inr True else any_key_in entities ks)"

definition get_annotation_stats :: "file_data \<Rightarrow> annotation_stats option" where
  "get_annotation_stats fd =
     (case fd of
        Parsed data \<Rightarrow>
          (case
             and_then (py_get data ''entities'' (JObj [])) (\<lambda>entities.
               and_then (py_len entities) (\<lambda>n_fields.
                 and_then (count_items entities) (\<lambda>n_items.
                   and_then (py_get data ''document_type'' (JStr ''unknown'')) (\<lambda>doc_type.
                     and_then (any_key_in entities
                         [''seller'', ''buyer'', ''shipper'', ''consignee'']) (\<lambda>company.
                       and_then (any_key_in entities
                           [''total'', ''subtotal'', ''total_weight'']) (\<lambda>amounts.
                         Inr \<lparr>document_type = doc_type, field_count = n_fields,
                              items_count = n_items, has_seller_buyer = company,
                              has_amounts = amounts\<rparr>))))))
           of Inl e \<Rightarrow> None | Inr stats \<Rightarrow> Some stats)
      | _ \<Rightarrow> None)"

section \<open>The quality reporter (data\_quality\_report.py)\<close>

text \<open>
  A Python dictionary whose keys are values read from a file is keyed by hash and \<^verbatim>\<open>==\<close>:
  \<^verbatim>\<open>True\<close>, \<^verbatim>\<open>1\<close> and \<^verbatim>\<open>1.0\<close> are one key, a list or a dictionary is not hashable.
  \<open>hkey\<close> is the key a value stands for. Dictionaries built by the scripts are association
  lists in insertion order, which is the order Python iterates them in.
\<close>

datatype hkey = KNone | KNum rat | KStr string

fun py_hash_key :: "json \<Rightarrow> exn + hkey" where
  "py_hash_key JNull = Inr KNone"
| "py_hash_key (JBool b) = Inr (KNum (if b then 1 else 0))"
| "py_hash_key (JNum q) = Inr (KNum q)"
| "py_hash_key (JStr s) = Inr (KStr s)"
| "py_hash_key (JArr xs) = Inl TypeError"
| "py_hash_key (JObj kvs) = Inl TypeError"

text \<open>\<^verbatim>\<open>counter[k] += 1\<close> on a \<^verbatim>\<open>Counter\<close>.\<close>

fun counter_incr :: "'k \<Rightarrow> ('k \<times> nat) list \<Rightarrow> ('k \<times> nat) list" where
  "counter_incr k [] = [(k, 1)]"
| "counter_incr k ((k', n) # rest) =
     (if k = k' then (k', n + 1) # rest else (k', n) # counter_incr k rest)"

text \<open>\<^verbatim>\<open>d[k]\<close> on a \<^verbatim>\<open>defaultdict(list)\<close>, which creates the entry when it is missing.\<close>

fun touch :: "'k \<Rightarrow> ('k \<times> 'a list) list \<Rightarrow> ('k \<times> 'a list) list" where
  "touch k [] = [(k, [])]"
| "touch k ((k', xs) # rest) =
     (if k = k' then (k', xs) # rest else (k', xs) # touch k rest)"

text \<open>\<^verbatim>\<open>d[k].append(x)\<close>, after \<open>d[k]\<close> has been set to \<open>[]\<close> when \<open>k\<close> was not a key.\<close>

fun group_append :: "'k \<Rightarrow> 'a \<Rightarrow> ('k \<times> 'a list) list \<Rightarrow> ('k \<times> 'a list) list" where
  "group_append k x [] = [(k, [x])]"
| "group_append k x ((k', xs) # rest) =
     (if k = k' then (k', xs @ [x]) # rest else (k', xs) # group_append k x rest)"

text \<open>The local variables of \<^verbatim>\<open>analyze_split\<close> that its loop updates.\<close>

record split_acc =
  acc_doc_types :: "(hkey \<times> nat) list"
  acc_field_counts :: "(hkey \<times> nat list) list"
  acc_total_items :: nat
  acc_has_company_info :: nat
  acc_has_amounts :: nat

definition company_keys :: "string list" where
  "company_keys = [''seller'', ''buyer'', ''shipper'', ''consignee'', ''supplier'']"

definition amount_keys :: "string list" where
  "amount_keys = [''total'', ''subtotal'', ''tax'', ''total_weight'']"

text \<open>One iteration of the loop of lines 30 to 56. An exception is caught and reported by
  the \<^verbatim>\<open>except\<close> of line 55, and the updates made before it stay: each \<open>Inl\<close> branch
  returns the accumulator as it is at that point. In line 39 the subscription
  \<^verbatim>\<open>field_counts[doc_type]\<close> is evaluated before \<^verbatim>\<open>len(entities)\<close>.\<close>

definition analyze_file :: "split_acc \<Rightarrow> file_data \<Rightarrow> split_acc" where
  "analyze_file acc fd =
     (case fd of
        Parsed data \<Rightarrow>
          (case and_then (py_get data ''document_type'' (JStr ''unknown'')) py_hash_key of
             Inl e \<Rightarrow> acc
           | Inr doc_type \<Rightarrow>
               let acc = acc\<lparr>acc_doc_types := counter_incr doc_type (acc_doc_types acc)\<rparr> in
               (case py_get data ''entities'' (JObj []) of
                  Inl e \<Rightarrow> acc
                | Inr entities \<Rightarrow>
                    let acc = acc\<lparr>acc_field_counts := touch doc_type (acc_field_counts acc)\<rparr> in
                    (case py_len entities of
                       Inl e \<Rightarrow> acc
                     | Inr n \<Rightarrow>
                         let acc = acc\<lparr>acc_field_counts :=
                                       group_append doc_type n (acc_field_counts acc)\<rparr> in
                         (case count_items entities of
                            Inl e \<Rightarrow> acc
                          | Inr items \<Rightarrow>
                              let acc = acc\<lparr>acc_total_items := acc_total_items acc + items\<rparr> in
                              (case any_key_in entities company_keys of
                                 Inl e \<Rightarrow> acc
                               | Inr company \<Rightarrow>
                                   let acc = (if company
                                              then acc\<lparr>acc_has_company_info :=
                                                         acc_has_company_info acc + 1\<rparr>
                                              else acc) in
                                   (case any_key_in entities amount_keys of
                                      Inl e \<Rightarrow> acc
                                    | Inr amounts \<Rightarrow>
                                        if amounts
                                        then acc\<lparr>acc_has_amounts := acc_has_amounts acc + 1\<rparr>
                                        else acc))))))
      | _ \<Rightarrow> acc)"

text \<open>The dictionary \<^verbatim>\<open>analyze_split\<close> returns. The key \<^verbatim>\<open>has_amounts\<close> is the field
  \<open>has_amounts_docs\<close>, the name \<open>has_amounts\<close> being taken by the record above. An average
  is the exact quotient.\<close>

record split_stats =
  total_docs :: nat
  doc_types :: "(hkey \<times> nat) list"
  field_counts :: "(hkey \<times> rat) list"
  total_items :: nat
  has_company_info :: nat
  has_amounts_docs :: nat

definition empty_acc :: split_acc where
  "empty_acc = \<lparr>acc_doc_types = [], acc_field_counts = [], acc_total_items = 0,
                acc_has_company_info = 0, acc_has_amounts = 0\<rparr>"

definition average :: "nat list \<Rightarrow> rat" where
  "average v = (if v \<noteq> [] then of_nat (sum_list v) / of_nat (length v) else 0)"

text \<open>\<^verbatim>\<open>analyze_split\<close> on the files that \<^verbatim>\<open>rglob\<close> found in one directory:
  \<^verbatim>\<open>None\<close> when there is none.\<close>

definition analyze_split :: "file_data list \<Rightarrow> split_stats option" where
  "analyze_split json_files =
     (if json_files = [] then None
      else
        let acc = foldl analyze_file empty_acc json_files in
        Some \<lparr>total_docs = length json_files,
              doc_types = acc_doc_types acc,
              field_counts = map (\<lambda>(k, v). (k, average v)) (acc_field_counts acc),
              total_items = acc_total_items acc,
              has_company_info = acc_has_company_info acc,
              has_amounts_docs = acc_has_amounts acc\<rparr>)"

text \<open>Lines 83 to 98 of \<^verbatim>\<open>main\<close>: \<open>dirs\<close> gives, for a split name, the files of its
  directory, or \<open>None\<close> when the directory does not exist. A split without files gets no
  entry in \<^verbatim>\<open>split_data\<close>.\<close>

definition splits :: "string list" where
  "splits = [''train'', ''validation'', ''test'']"

fun collect_splits ::
  "(string \<Rightarrow> file_data list option) \<Rightarrow> string list \<Rightarrow> (string \<times> split_stats) list" where
  "collect_splits dirs [] = []"
| "collect_splits dirs (split # rest) =
     (case dirs split of
        None \<Rightarrow> collect_splits dirs rest
      | Some json_files \<Rightarrow>
          (case analyze_split json_files of
             None \<Rightarrow> collect_splits dirs rest
           | Some stats \<Rightarrow> (split, stats) # collect_splits dirs rest))"

text \<open>Check 1, lines 189 to 198: what the report says about the balance of the splits,
  \<open>None\<close> when the check is skipped because fewer than two splits have data. The
  quotient of line 194 is taken exactly: the division of two integers returns the float
  nearest to their quotient, which is below 0.5 exactly when the quotient is, for the
  counts a directory can have (up to \<open>2^53\<close>).\<close>

datatype balance = Imbalanced | Balanced

definition check_balance :: "(string \<times> split_stats) list \<Rightarrow> balance option" where
  "check_balance split_data =
     (if length split_data \<ge> 2 then
        let doc_counts = map (\<lambda>(name, s). total_docs s) split_data;
            max_count = Max (set doc_counts);
            min_count = Min (set doc_counts)
        in if max_count > 0 \<and> (of_nat min_count / of_nat max_count :: rat) < 1 / 2
           then Some Imbalanced
           else Some Balanced
      else None)"

text \<open>Check 2, lines 201 to 204, and the value of \<^verbatim>\<open>all_good\<close> after both checks.\<close>

definition all_good :: "(string \<times> split_stats) list \<Rightarrow> bool" where
  "all_good split_data =
     (check_balance split_data \<noteq> Some Imbalanced \<and>
      list_all (\<lambda>(name, s). \<not> length (doc_types s) < 2) split_data)"

text \<open>The status line, lines 236 to 241.\<close>

datatype status = Ready_for_training | More_data_recommended | Review_warnings

definition report_status :: "(string \<times> split_stats) list \<Rightarrow> status" where
  "report_status split_data =
     (let total_all = sum_list (map (\<lambda>(name, s). total_docs s) split_data) in
      if all_good split_data \<and> total_all \<ge> 30 then Ready_for_training
      else if total_all < 30 then More_data_recommended
      else Review_warnings)"


section \<open>The stratified splitter (split\_data.py)\<close>

text \<open>The three lists that the loop of lines 114 to 129 fills.\<close>

record 'p split =
  train_files :: "'p list"
  val_files :: "'p list"
  test_files :: "'p list"

text \<open>
  A command-line ratio is a Python \<^verbatim>\<open>float\<close>, a binary floating-point number. It is
  modelled by the rational number it is (NaN and the infinities are left out). An operation
  on floats returns the exact result rounded to a float; the rounding function belongs to
  the language and is the parameter \<open>float_round\<close> of the model. The other parameters are
  what the script uses of its surroundings:
  \<^item> the module \<^verbatim>\<open>random\<close>: \<open>rng_seed a g\<close> is the state of the generator after
    \<^verbatim>\<open>random.seed(a)\<close> in state \<open>g\<close>, and \<open>rng_shuffle g xs\<close> is the list after
    \<^verbatim>\<open>random.shuffle(xs)\<close> in state \<open>g\<close>, with the state that follows;
  \<^item> the rendering library: the console reads the strings it prints as markup, and
    \<open>markup_ok s\<close> tells whether it accepts the text \<open>s\<close> (it raises \<^verbatim>\<open>MarkupError\<close> on
    a closing tag that closes nothing, such as \<^verbatim>\<open>[/red]\<close>);
  \<^item> the file system: \<open>write_split sp\<close> is what lines 154 to 238 do with the split
    \<open>sp\<close> once the user has agreed, clearing the target directories, copying the files,
    writing the manifest and printing the closing messages: \<open>None\<close> when all of it
    succeeds, the exception otherwise. It fails, for instance, on a file that cannot be
    opened, and with the default options, where the input directory is the train
    directory and the first file is copied onto itself.

  Three facts of the language are hypotheses where a theorem needs them: rounding a number
  that is not negative gives a number that is not negative, seeding forgets the former
  state of the generator, and shuffling permutes the list.
\<close>

record ('g, 'p) runtime =
  float_round :: "rat \<Rightarrow> rat"
  rng_seed :: "int \<Rightarrow> 'g \<Rightarrow> 'g"
  rng_shuffle :: "'g \<Rightarrow> 'p list \<Rightarrow> 'p list \<times> 'g"
  markup_ok :: "string \<Rightarrow> bool"
  write_split :: "'p split \<Rightarrow> exn option"

definition keeps_sign :: "('g, 'p) runtime \<Rightarrow> bool" where
  "keeps_sign rt = (\<forall>x. 0 \<le> x \<longrightarrow> 0 \<le> float_round rt x)"

definition seed_resets :: "('g, 'p) runtime \<Rightarrow> bool" where
  "seed_resets rt = (\<forall>a g g'. rng_seed rt a g = rng_seed rt a g')"

definition shuffle_permutes :: "('g, 'p) runtime \<Rightarrow> bool" where
  "shuffle_permutes rt = (\<forall>g xs. mset (fst (rng_shuffle rt g xs)) = mset xs)"

text \<open>Line 66, \<^verbatim>\<open>train_ratio + val_ratio + test_ratio\<close>, and the test of line 67,
  \<^verbatim>\<open>abs(total_ratio - 1.0) > 0.01\<close>, as floats compute them.\<close>

definition total_ratio :: "('g, 'p) runtime \<Rightarrow> rat \<Rightarrow> rat \<Rightarrow> rat \<Rightarrow> rat" where
  "total_ratio rt train_ratio val_ratio test_ratio =
     float_round rt (float_round rt (train_ratio + val_ratio) + test_ratio)"

definition ratios_rejected :: "('g, 'p) runtime \<Rightarrow> rat \<Rightarrow> rat \<Rightarrow> rat \<Rightarrow> bool" where
  "ratios_rejected rt train_ratio val_ratio test_ratio =
     (\<bar>float_round rt (total_ratio rt train_ratio val_ratio test_ratio - 1)\<bar>
        > float_round rt (1 / 100))"

text \<open>\<^verbatim>\<open>n * ratio\<close> for an \<^verbatim>\<open>int\<close> and a float: the integer is converted, then the
  floats are multiplied.\<close>

definition int_times_float :: "('g, 'p) runtime \<Rightarrow> nat \<Rightarrow> rat \<Rightarrow> rat" where
  "int_times_float rt n ratio = float_round rt (float_round rt (of_nat n) * ratio)"

text \<open>\<^verbatim>\<open>get_document_type\<close>: any exception of its body gives \<^verbatim>\<open>"unknown"\<close>.\<close>

definition get_document_type :: "file_data \<Rightarrow> json" where
  "get_document_type fd =
     (case fd of
        Parsed data \<Rightarrow>
          (case py_get data ''document_type'' (JStr ''unknown'') of
             Inl e \<Rightarrow> JStr ''unknown''
           | Inr v \<Rightarrow> v)
      | _ \<Rightarrow> JStr ''unknown'')"

text \<open>\<^verbatim>\<open>int(x)\<close> on a float rounds towards zero.\<close>

definition py_int :: "rat \<Rightarrow> int" where
  "py_int x = (if x \<ge> 0 then \<lfloor>x\<rfloor> else \<lceil>x\<rceil>)"

text \<open>A slice \<^verbatim>\<open>xs[lo:hi]\<close> with step 1: a negative bound counts from the end, and every
  bound is clipped to the list. \<open>None\<close> is an omitted bound.\<close>

definition slice_index :: "nat \<Rightarrow> int \<Rightarrow> nat" where
  "slice_index n i = (if i < 0 then nat (max 0 (int n + i)) else min n (nat i))"

definition py_slice :: "'a list \<Rightarrow> int option \<Rightarrow> int option \<Rightarrow> 'a list" where
  "py_slice xs lo hi =
     (let n = length xs;
          start = (case lo of None \<Rightarrow> 0 | Some i \<Rightarrow> slice_index n i);
          stop = (case hi of None \<Rightarrow> n | Some j \<Rightarrow> slice_index n j)
      in take (stop - start) (drop start xs))"

text \<open>Lines 80 to 86: \<^verbatim>\<open>by_type\<close>, built in discovery order. Using the document type as a
  key raises \<^verbatim>\<open>TypeError\<close> when it is not hashable.\<close>

fun group_by_type ::
  "('p \<Rightarrow> file_data) \<Rightarrow> 'p list \<Rightarrow> (hkey \<times> 'p list) list \<Rightarrow> exn + (hkey \<times> 'p list) list" where
  "group_by_type content [] by_type = Inr by_type"
| "group_by_type content (json_file # rest) by_type =
     and_then (py_hash_key (get_document_type (content json_file))) (\<lambda>doc_type.
       group_by_type content rest (group_append doc_type json_file by_type))"

text \<open>
  Lines 95 to 99 show the distribution. \<^verbatim>\<open>sorted(by_type.items())\<close> orders the pairs by
  their keys, which are pairwise different; \<^verbatim>\<open><\<close> is defined between two strings and
  between two numbers and raises \<^verbatim>\<open>TypeError\<close> otherwise, so sorting two or more keys
  succeeds only when they are all strings or all numbers. \<^verbatim>\<open>Table.add_row\<close> of the
  rendering library then takes a string or \<^verbatim>\<open>None\<close> as a cell and refuses a number
  (\<^verbatim>\<open>NotRenderableError\<close>). Printing the table at line 99 reads every string cell as
  markup, and raises \<^verbatim>\<open>MarkupError\<close> when the console does not accept a document type.
\<close>

fun is_str_key :: "hkey \<Rightarrow> bool" where
  "is_str_key (KStr s) = True"
| "is_str_key _ = False"

fun is_num_key :: "hkey \<Rightarrow> bool" where
  "is_num_key (KNum q) = True"
| "is_num_key _ = False"

fun markup_fails :: "('g, 'p) runtime \<Rightarrow> hkey \<Rightarrow> bool" where
  "markup_fails rt (KStr s) = (\<not> markup_ok rt s)"
| "markup_fails rt _ = False"

definition show_distribution :: "('g, 'p) runtime \<Rightarrow> hkey list \<Rightarrow> exn + unit" where
  "show_distribution rt keys =
     (if length keys \<ge> 2 \<and> \<not> list_all is_str_key keys \<and> \<not> list_all is_num_key keys
      then Inl TypeError
      else if list_ex is_num_key keys then Inl NotRenderableError
      else if list_ex (markup_fails rt) keys then Inl MarkupError
      else Inr ())"

text \<open>Lines 118 to 125 for one document type, on its shuffled files.\<close>

definition split_group ::
  "('g, 'p) runtime \<Rightarrow> rat \<Rightarrow> rat \<Rightarrow> 'p list \<Rightarrow> 'p list \<times> 'p list \<times> 'p list" where
  "split_group rt train_ratio val_ratio files =
     (let n_total = length files;
          n_train = py_int (int_times_float rt n_total train_ratio);
          n_val = py_int (int_times_float rt n_total val_ratio);
          type_train = py_slice files None (Some n_train);
          type_val = py_slice files (Some n_train) (Some (n_train + n_val));
          type_test = py_slice files (Some (n_train + n_val)) None
      in (type_train, type_val, type_test))"

text \<open>Line 131 prints the document type and the three counts of its group. The text
  around the document type holds no markup, so the console accepts the line when it
  accepts the document type; \<^verbatim>\<open>None\<close> and a number are printed as they are.\<close>

definition print_progress :: "('g, 'p) runtime \<Rightarrow> hkey \<Rightarrow> exn + unit" where
  "print_progress rt doc_type = (if markup_fails rt doc_type then Inl MarkupError else Inr ())"

text \<open>The loop of lines 114 to 131: one generator, advanced from one document type to the
  next in the order of \<^verbatim>\<open>by_type\<close>.\<close>

fun split_types ::
  "('g, 'p) runtime \<Rightarrow> rat \<Rightarrow> rat \<Rightarrow> 'g \<Rightarrow> (hkey \<times> 'p list) list \<Rightarrow> 'p split
     \<Rightarrow> exn + 'p split" where
  "split_types rt train_ratio val_ratio g [] sp = Inr sp"
| "split_types rt train_ratio val_ratio g ((doc_type, files) # rest) sp =
     (case rng_shuffle rt g files of
        (files, g) \<Rightarrow>
          (case split_group rt train_ratio val_ratio files of
             (type_train, type_val, type_test) \<Rightarrow>
               and_then (print_progress rt doc_type) (\<lambda>u.
                 split_types rt train_ratio val_ratio g rest
                   \<lparr>train_files = train_files sp @ type_train,
                    val_files = val_files sp @ type_val,
                    test_files = test_files sp @ type_test\<rparr>)))"

text \<open>
  How a run of \<^verbatim>\<open>main\<close> ends. \<open>Raised e\<close>: the exception \<open>e\<close> leaves \<^verbatim>\<open>main\<close> before
  the split is computed. \<open>No_annotations\<close>: the \<^verbatim>\<open>return\<close> of line 76. \<open>Cancelled sp\<close>:
  the split \<open>sp\<close> was computed and shown, the user declined, \<^verbatim>\<open>return\<close> of line 152.
  \<open>Write_failed e sp\<close>: the split \<open>sp\<close> was computed and shown, the user agreed, and the
  exception \<open>e\<close> left \<^verbatim>\<open>main\<close> while the split was written. \<open>Completed sp\<close>: the target
  directories were cleared, the files of \<open>sp\<close> copied and the manifest of \<open>sp\<close> written.
\<close>

datatype 'p run =
    Raised exn
  | No_annotations
  | Cancelled "'p split"
  | Write_failed exn "'p split"
  | Completed "'p split"

text \<open>
  \<^verbatim>\<open>main\<close>. \<open>g0\<close> is the state of the generator when the command starts, \<open>content\<close>
  what each file holds, \<open>json_files\<close> the result of \<^verbatim>\<open>rglob\<close> in its order, \<open>confirm\<close> the
  answer to the prompt of line 150. Line 69 calls \<^verbatim>\<open>sys.exit(1)\<close>, and the module does not
  import \<^verbatim>\<open>sys\<close>: evaluating the name raises \<^verbatim>\<open>NameError\<close>. The paths given on the
  command line are taken to hold no markup (lines 75 and 162 print them).
\<close>

definition main ::
  "('g, 'p) runtime \<Rightarrow> 'g \<Rightarrow> ('p \<Rightarrow> file_data) \<Rightarrow> 'p list \<Rightarrow>
     rat \<Rightarrow> rat \<Rightarrow> rat \<Rightarrow> int \<Rightarrow> bool \<Rightarrow> 'p run" where
  "main rt g0 content json_files train_ratio val_ratio test_ratio seed confirm =
     (let g = rng_seed rt seed g0
      in if ratios_rejected rt train_ratio val_ratio test_ratio then Raised (NameError ''sys'')
         else if json_files = [] then No_annotations
         else
           (case group_by_type content json_files [] of
              Inl e \<Rightarrow> Raised e
            | Inr by_type \<Rightarrow>
                (case show_distribution rt (map fst by_type) of
                   Inl e \<Rightarrow> Raised e
                 | Inr u \<Rightarrow>
                     (case split_types rt train_ratio val_ratio g by_type
                             \<lparr>train_files = [], val_files = [], test_files = []\<rparr> of
                        Inl e \<Rightarrow> Raised e
                      | Inr sp \<Rightarrow>
                          if \<not> confirm then Cancelled sp
                          else
                            (case write_split rt sp of
                               Some e \<Rightarrow> Write_failed e sp
                             | None \<Rightarrow> Completed sp)))))"

text \<open>The exit status of the process: an exception that nothing catches ends the
  interpreter with status 1, a \<^verbatim>\<open>return\<close> of the command with status 0.\<close>

fun exit_status :: "'p run \<Rightarrow> nat" where
  "exit_status (Raised e) = 1"
| "exit_status No_annotations = 0"
| "exit_status (Cancelled sp) = 0"
| "exit_status (Write_failed e sp) = 1"
| "exit_status (Completed sp) = 0"

text \<open>The split a run computed (the three lists after line 129), and the split it wrote
  to the target directories.\<close>

fun computed_split :: "'p run \<Rightarrow> 'p split option" where
  "computed_split (Cancelled sp) = Some sp"
| "computed_split (Write_failed e sp) = Some sp"
| "computed_split (Completed sp) = Some sp"
| "computed_split _ = None"

fun written_split :: "'p run \<Rightarrow> 'p split option" where
  "written_split (Completed sp) = Some sp"
| "written_split _ = None"

text \<open>A stand-in for the surroundings, to run the model on concrete inputs: every result
  is taken to be a float (the ratios used below are dyadic, and so are the results of the
  operations on them; the constant 0.01 is taken as it is written, which decides the
  comparisons made below as its float does), the state of the generator is a counter, a
  shuffle rotates the list by it, the console accepts the texts without an opening
  bracket, and the split is written without error.\<close>

definition rotating :: "(nat, 'p) runtime" where
  "rotating = \<lparr>float_round = (\<lambda>x. x), rng_seed = (\<lambda>a g. nat \<bar>a\<bar>),
               rng_shuffle = (\<lambda>g xs. (rotate g xs, Suc g)),
               markup_ok = (\<lambda>s. CHR ''['' \<notin> set s),
               write_split = (\<lambda>sp. None)\<rparr>"

section \<open>Concrete inputs\<close>

text \<open>A purchase order whose entities name the supplier and the tax, the fields of
  \<^verbatim>\<open>PurchaseOrderEntity\<close> and \<^verbatim>\<open>InvoiceEntity\<close> in core/schemas.py.\<close>

definition supplier_order :: json where
  "supplier_order =
     JObj [(''document_id'', JStr ''po1''), (''filename'', JStr ''po1.pdf''),
           (''document_type'', JStr ''purchase_order''),
           (''entities'', JObj [(''document_type'', JStr ''purchase_order''),
                                (''po_number'', JStr ''PO-1''),
                                (''supplier'', JObj [(''name'', JStr ''ACME'')]),
                                (''tax'', JNum 5)])]"

text \<open>A record with both item sequences.\<close>

definition mixed_entities :: "(string \<times> json) list" where
  "mixed_entities =
     [(''invoice_number'', JStr ''I-1''),
      (''cargo_items'', JArr [JStr ''c1'', JStr ''c2'', JStr ''c3'']),
      (''line_items'', JArr [JStr ''l1'', JStr ''l2''])]"

definition mixed_members :: "(string \<times> json) list" where
  "mixed_members = [(''document_type'', JStr ''invoice''), (''entities'', JObj mixed_entities)]"

text \<open>Files named by numbers. \<open>all_invoices\<close>: every file is an invoice record.
  \<open>one_broken\<close>: file 0 does not parse, the others are invoices.\<close>

definition all_invoices :: "nat \<Rightarrow> file_data" where
  "all_invoices p = Parsed minimal_invoice"

definition one_broken :: "nat \<Rightarrow> file_data" where
  "one_broken p = (if p = 0 then Invalid_JSON_file ''Expecting value'' else Parsed minimal_invoice)"

text \<open>\<open>null_and_broken\<close>: file 0 holds \<^verbatim>\<open>{"document_type": null}\<close>, the others do not
  parse.\<close>

definition null_and_broken :: "nat \<Rightarrow> file_data" where
  "null_and_broken p =
     (if p = 0 then Parsed (JObj [(''document_type'', JNull)])
      else Invalid_JSON_file ''Expecting value'')"

text \<open>\<open>closing_tag\<close>: every file has the document type \<^verbatim>\<open>[/red]\<close>.\<close>

definition closing_tag :: "nat \<Rightarrow> file_data" where
  "closing_tag p = Parsed (JObj [(''document_type'', JStr ''[/red]'')])"

text \<open>Split directories for the quality reporter: \<open>a\<close> records under train, \<open>b\<close> under
  validation, no test directory.\<close>

definition two_sets :: "nat \<Rightarrow> nat \<Rightarrow> string \<Rightarrow> file_data list option" where
  "two_sets a b name =
     (if name = ''train'' then Some (replicate a (Parsed minimal_invoice))
      else if name = ''validation'' then Some (replicate b (Parsed minimal_invoice))
      else None)"

section \<open>Properties of the specification\<close>

text \<open>What the specification asks of a split of the records \<open>files\<close>: the three sets
  are pairwise disjoint, and together they hold every record once.\<close>

definition partitions :: "'p list \<Rightarrow> 'p split \<Rightarrow> bool" where
  "partitions files sp =
     (mset (train_files sp) + mset (val_files sp) + mset (test_files sp) = mset files \<and>
      set (train_files sp) \<inter> set (val_files sp) = {} \<and>
      set (train_files sp) \<inter> set (test_files sp) = {} \<and>
      set (val_files sp) \<inter> set (test_files sp) = {})"

text \<open>The document types with which a run gets as far as the split: every record has a
  string that the console accepts, or every record has \<^verbatim>\<open>null\<close>, which is one key
  \<^verbatim>\<open>None\<close>, an empty cell and the text \<^verbatim>\<open>None\<close>.\<close>

fun shown_type :: "('g, 'p) runtime \<Rightarrow> json \<Rightarrow> bool" where
  "shown_type rt (JStr s) = markup_ok rt s"
| "shown_type rt _ = False"

definition displayable_types ::
  "('g, 'p) runtime \<Rightarrow> ('p \<Rightarrow> file_data) \<Rightarrow> 'p list \<Rightarrow> bool" where
  "displayable_types rt content json_files =
     (list_all (\<lambda>f. shown_type rt (get_document_type (content f))) json_files \<or>
      list_all (\<lambda>f. get_document_type (content f) = JNull) json_files)"

text \<open>A file that does not load, or whose value has no top-level \<^verbatim>\<open>document_type\<close>.\<close>

fun no_document_type :: "file_data \<Rightarrow> bool" where
  "no_document_type (Parsed (JObj kvs)) = (''document_type'' \<notin> set (dict_keys kvs))"
| "no_document_type _ = True"

section \<open>The structural validator: results\<close>


text \<open>
  Claim C4. On the record
  \<^verbatim>\<open>{"document_id":"x","filename":"x.pdf","document_type":"invoice","entities":{"document_type":"invoice"}}\<close>
  the validator is said to return invalid with exactly one issue, the empty-annotation one.
  It returns invalid with two issues: rule 5 finds no \<^verbatim>\<open>invoice_number\<close> in the entities
  of an invoice, then rule 6 finds at most one field. The claim as amended: the validator
  returns invalid with exactly these two issues, in this order.
\<close>

theorem empty_invoice_two_issues:
  "validate_annotation (Parsed empty_invoice)
     = Inr (False, [Invoice_missing_number, Entities_no_data])"
  by code_simp

text \<open>The claim as it is written fails on that record.\<close>

theorem empty_invoice_single_issue_counterexample:
  "validate_annotation (Parsed empty_invoice) \<noteq> Inr (False, [Entities_no_data])"
  by code_simp

text \<open>The minimal well-formed invoice of the specification is valid.\<close>

lemma minimal_invoice_valid:
  "validate_annotation (Parsed minimal_invoice) = Inr (True, [])"
  by code_simp

section \<open>The statistics extractor: results\<close>

lemma dict_get_in_keys: "dict_get kvs k = Some v \<Longrightarrow> k \<in> set (dict_keys kvs)"
  unfolding dict_get_def dict_keys_def
  by (auto dest!: map_of_SomeD intro: rev_image_eqI)

lemma any_key_in_dict:
  "any_key_in (JObj kvs) ks = Inr (\<exists>k \<in> set ks. k \<in> set (dict_keys kvs))"
  by (induction ks) auto

lemma py_get_dict_total: "\<exists>v. py_get (JObj kvs) k d = Inr v"
  by (cases "dict_get kvs k") auto

text \<open>
  Claim C7. The extractor is said to report a company-role field when any of seller,
  buyer, shipper, consignee or supplier is present, and an amount field when any of total,
  subtotal, tax or total\_weight is present. \<^verbatim>\<open>get_annotation_stats\<close> tests neither
  \<^verbatim>\<open>supplier\<close> nor \<^verbatim>\<open>tax\<close>: on a purchase order whose entities hold a supplier and a
  tax, and none of the other fields, both booleans are false. The same record counts as
  having company information and amounts in \<^verbatim>\<open>analyze_split\<close>, whose tests are the
  claim's.
\<close>

theorem stats_miss_supplier_and_tax:
  "get_annotation_stats (Parsed supplier_order) =
     Some \<lparr>document_type = JStr ''purchase_order'', field_count = 4, items_count = 0,
           has_seller_buyer = False, has_amounts = False\<rparr> \<and>
   acc_has_company_info (analyze_file empty_acc (Parsed supplier_order)) = 1 \<and>
   acc_has_amounts (analyze_file empty_acc (Parsed supplier_order)) = 1"
  by code_simp

text \<open>
  Claim C10. For every record whose entities hold both a \<^verbatim>\<open>line_items\<close> sequence and a
  \<^verbatim>\<open>cargo_items\<close> sequence, the item count of the statistics extractor is the length of
  \<^verbatim>\<open>line_items\<close>: the extractor returns statistics (not the empty result), and their
  \<open>items_count\<close> ignores \<^verbatim>\<open>cargo_items\<close>. The count is that of \<open>count_items\<close>, the
  code that \<^verbatim>\<open>analyze_split\<close> repeats.
\<close>

theorem line_items_take_precedence:
  assumes "dict_get members ''entities'' = Some (JObj entities)"
    and "dict_get entities ''line_items'' = Some (JArr line_items)"
    and "dict_get entities ''cargo_items'' = Some (JArr cargo_items)"
  shows "count_items (JObj entities) = Inr (length line_items) \<and>
         (\<exists>stats. get_annotation_stats (Parsed (JObj members)) = Some stats \<and>
                  items_count stats = length line_items)"
proof -
  have k: "''line_items'' \<in> set (dict_keys entities)"
    using assms(2) by (rule dict_get_in_keys)
  have c: "count_items (JObj entities) = Inr (length line_items)"
    using k assms(2) by (simp add: count_items_def)
  obtain t where t: "py_get (JObj members) ''document_type'' (JStr ''unknown'') = Inr t"
    using py_get_dict_total by blast
  have e: "py_get (JObj members) ''entities'' (JObj []) = Inr (JObj entities)"
    using assms(1) by simp
  have "\<exists>stats. get_annotation_stats (Parsed (JObj members)) = Some stats \<and>
                  items_count stats = length line_items"
    unfolding get_annotation_stats_def
    by (simp add: e c t any_key_in_dict del: py_get.simps)
  with c show ?thesis by simp
qed

theorem line_items_take_precedence_witness:
  "dict_get mixed_members ''entities'' = Some (JObj mixed_entities) \<and>
   dict_get mixed_entities ''line_items'' = Some (JArr [JStr ''l1'', JStr ''l2'']) \<and>
   dict_get mixed_entities ''cargo_items'' = Some (JArr [JStr ''c1'', JStr ''c2'', JStr ''c3'']) \<and>
   count_items (JObj mixed_entities) = Inr 2 \<and>
   (\<exists>stats. get_annotation_stats (Parsed (JObj mixed_members)) = Some stats \<and>
            items_count stats = 2)"
proof -
  have h1: "dict_get mixed_members ''entities'' = Some (JObj mixed_entities)"
    by (simp add: dict_get_def mixed_members_def)
  have h2: "dict_get mixed_entities ''line_items'' = Some (JArr [JStr ''l1'', JStr ''l2''])"
    by (simp add: dict_get_def mixed_entities_def)
  have h3: "dict_get mixed_entities ''cargo_items''
              = Some (JArr [JStr ''c1'', JStr ''c2'', JStr ''c3''])"
    by (simp add: dict_get_def mixed_entities_def)
  show ?thesis
    using h1 h2 h3 line_items_take_precedence [OF h1 h2 h3] by (simp add: numeral_2_eq_2)
qed

section \<open>The quality reporter: results\<close>

lemma imbalance_test:
  fixes a b :: nat
  shows "(0 < b \<and> (of_nat a / of_nat b :: rat) < 1 / 2) = (\<not> b \<le> 2 * a)"
proof (cases "b = 0")
  case True
  then show ?thesis by simp
next
  case False
  then have "((of_nat a / of_nat b :: rat) < 1 / 2) = ((of_nat (2 * a) :: rat) < of_nat b)"
    by (simp add: field_simps)
  also have "\<dots> = (2 * a < b)"
    by (simp only: of_nat_less_iff)
  finally show ?thesis using False by auto
qed

text \<open>
  Claim C8. For every collection \<^verbatim>\<open>split_data\<close> of two or more record sets, the report
  calls the collection balanced exactly when the largest set is at most twice the smallest,
  that is when the smallest is at least half the largest, and imbalanced otherwise. (A
  directory without records gets no entry in \<^verbatim>\<open>split_data\<close>.) The witness runs the
  reporter on directories of 10 and 3 records, imbalanced, and of 10 and 6, balanced.
\<close>

theorem balanced_iff_half:
  assumes "length split_data \<ge> 2"
  shows "check_balance split_data =
           (if Max (set (map (\<lambda>(name, s). total_docs s) split_data))
                 \<le> 2 * Min (set (map (\<lambda>(name, s). total_docs s) split_data))
            then Some Balanced else Some Imbalanced)"
  using assms unfolding check_balance_def Let_def
  by (simp only: imbalance_test if_True split: if_splits) simp

theorem balanced_iff_half_witness:
  "length (collect_splits (two_sets 10 3) splits) \<ge> 2 \<and>
   check_balance (collect_splits (two_sets 10 3) splits) = Some Imbalanced \<and>
   length (collect_splits (two_sets 10 6) splits) \<ge> 2 \<and>
   check_balance (collect_splits (two_sets 10 6) splits) = Some Balanced"
proof -
  have a: "map (\<lambda>(name, s). total_docs s) (collect_splits (two_sets 10 3) splits) = [10, 3]"
    by code_simp
  have b: "map (\<lambda>(name, s). total_docs s) (collect_splits (two_sets 10 6) splits) = [10, 6]"
    by code_simp
  have la: "length (collect_splits (two_sets 10 3) splits) \<ge> 2"
    by code_simp
  have lb: "length (collect_splits (two_sets 10 6) splits) \<ge> 2"
    by code_simp
  show ?thesis
    using la lb balanced_iff_half [OF la] balanced_iff_half [OF lb]
    unfolding a b by simp
qed

section \<open>The stratified splitter: results\<close>

subsection \<open>The stand-in for the language\<close>

lemma mset_rotate_eq: "mset (rotate n xs) = mset xs"
proof -
  have "mset (rotate n xs)
          = mset (drop (n mod length xs) xs) + mset (take (n mod length xs) xs)"
    by (simp add: rotate_drop_take)
  also have "\<dots> = mset (take (n mod length xs) xs @ drop (n mod length xs) xs)"
    by (simp only: mset_append add.commute)
  finally show ?thesis by simp
qed

lemma rotating_keeps_sign: "keeps_sign rotating"
  by (simp add: keeps_sign_def rotating_def)

lemma rotating_resets: "seed_resets rotating"
  by (simp add: seed_resets_def rotating_def)

lemma rotating_permutes: "shuffle_permutes rotating"
  by (simp add: shuffle_permutes_def rotating_def mset_rotate_eq)

lemma rotating_accepts: "\<not> ratios_rejected rotating (1/2) (1/4) (1/4)"
  by (simp add: ratios_rejected_def total_ratio_def rotating_def)

lemma all_invoices_type: "get_document_type (all_invoices f) = JStr ''invoice''"
  by (simp add: all_invoices_def minimal_invoice_def get_document_type_def dict_get_def)

lemma all_invoices_displayable: "displayable_types rotating all_invoices json_files"
  by (simp add: displayable_types_def all_invoices_type list_all_iff rotating_def)

lemma one_broken_displayable: "displayable_types rotating one_broken json_files"
  by (simp add: displayable_types_def list_all_iff rotating_def one_broken_def
      minimal_invoice_def get_document_type_def dict_get_def)

subsection \<open>Slices\<close>

lemma take_take_drop: "a \<le> s \<Longrightarrow> take a xs @ take (s - a) (drop a xs) = take s xs"
proof -
  assume "a \<le> s"
  then have "s = a + (s - a)" by simp
  then have "take s xs = take (a + (s - a)) xs" by simp
  also have "\<dots> = take a xs @ take (s - a) (drop a xs)" by (rule take_add)
  finally show ?thesis by simp
qed

text \<open>With bounds that are not negative, the three slices of lines 123 to 125 cut the
  list in three consecutive pieces.\<close>

lemma slices_concat:
  assumes "0 \<le> a" and "0 \<le> b"
  shows "py_slice xs None (Some a) @ py_slice xs (Some a) (Some (a + b))
           @ py_slice xs (Some (a + b)) None = xs"
proof -
  let ?n = "length xs"
  let ?A = "min ?n (nat a)"
  let ?S = "min ?n (nat (a + b))"
  have "nat a \<le> nat (a + b)" using assms by simp
  then have le: "?A \<le> ?S" by (auto simp add: min_def)
  have 1: "py_slice xs None (Some a) = take ?A xs"
    using assms by (simp add: py_slice_def slice_index_def Let_def)
  have 2: "py_slice xs (Some a) (Some (a + b)) = take (?S - ?A) (drop ?A xs)"
    using assms by (simp add: py_slice_def slice_index_def Let_def)
  have 3: "py_slice xs (Some (a + b)) None = drop ?S xs"
    using assms by (simp add: py_slice_def slice_index_def Let_def)
  have "take ?A xs @ take (?S - ?A) (drop ?A xs) @ drop ?S xs
          = (take ?A xs @ take (?S - ?A) (drop ?A xs)) @ drop ?S xs" by simp
  also have "\<dots> = take ?S xs @ drop ?S xs"
    by (simp only: take_take_drop [OF le])
  finally show ?thesis unfolding 1 2 3 by simp
qed

text \<open>Whatever the bounds, no element is left out of the three slices.\<close>

lemma slices_cover:
  "set xs \<subseteq> set (py_slice xs None (Some a)) \<union> set (py_slice xs (Some a) (Some c))
              \<union> set (py_slice xs (Some c) None)"
proof -
  let ?A = "slice_index (length xs) a"
  let ?S = "slice_index (length xs) c"
  have 1: "py_slice xs None (Some a) = take ?A xs"
    by (simp add: py_slice_def)
  have 2: "py_slice xs (Some a) (Some c) = take (?S - ?A) (drop ?A xs)"
    by (simp add: py_slice_def Let_def)
  have 3: "py_slice xs (Some c) None = drop ?S xs"
    by (simp add: py_slice_def Let_def)
  have split: "set xs = set (take ?S xs) \<union> set (drop ?S xs)"
    by (metis append_take_drop_id set_append)
  show ?thesis
  proof (cases "?A \<le> ?S")
    case True
    have "set (take ?S xs) = set (take ?A xs) \<union> set (take (?S - ?A) (drop ?A xs))"
      by (metis take_take_drop [OF True] set_append)
    with split show ?thesis unfolding 1 2 3 by blast
  next
    case False
    then have "set (take ?S xs) \<subseteq> set (take ?A xs)"
      by (simp add: set_take_subset_set_take)
    with split show ?thesis unfolding 1 2 3 by blast
  qed
qed

lemma slices_lengths:
  assumes "0 \<le> a" and "0 \<le> b" and "a + b \<le> int (length xs)"
  shows "int (length (py_slice xs None (Some a))) = a"
    and "int (length (py_slice xs (Some a) (Some (a + b)))) = b"
    and "int (length (py_slice xs (Some (a + b)) None)) = int (length xs) - a - b"
  using assms by (auto simp add: py_slice_def slice_index_def Let_def min_def)

subsection \<open>One document type\<close>

lemma count_nonneg:
  assumes "keeps_sign rt" and "0 \<le> ratio"
  shows "py_int (int_times_float rt n ratio) = \<lfloor>int_times_float rt n ratio\<rfloor>"
    and "0 \<le> py_int (int_times_float rt n ratio)"
proof -
  have "0 \<le> float_round rt (of_nat n)"
    using assms(1) by (simp add: keeps_sign_def)
  then have "0 \<le> float_round rt (of_nat n) * ratio"
    using assms(2) by simp
  then have "0 \<le> int_times_float rt n ratio"
    using assms(1) by (simp add: keeps_sign_def int_times_float_def)
  then show "py_int (int_times_float rt n ratio) = \<lfloor>int_times_float rt n ratio\<rfloor>"
    and "0 \<le> py_int (int_times_float rt n ratio)"
    by (simp_all add: py_int_def)
qed

lemma split_group_concat:
  assumes "keeps_sign rt" and "0 \<le> train_ratio" and "0 \<le> val_ratio"
    and "split_group rt train_ratio val_ratio files = (tr, va, te)"
  shows "tr @ va @ te = files"
proof -
  have a: "0 \<le> py_int (int_times_float rt (length files) train_ratio)"
    using assms(1) assms(2) by (rule count_nonneg(2))
  have b: "0 \<le> py_int (int_times_float rt (length files) val_ratio)"
    using assms(1) assms(3) by (rule count_nonneg(2))
  show ?thesis
    using assms(4) slices_concat [OF a b, of files]
    by (simp add: split_group_def Let_def)
qed

lemma split_group_cover:
  assumes "split_group rt train_ratio val_ratio files = (tr, va, te)"
  shows "set files \<subseteq> set tr \<union> set va \<union> set te"
  using assms slices_cover [of files]
  by (auto simp add: split_group_def Let_def)

subsection \<open>Grouping by document type\<close>

lemma mset_group_append:
  "mset (concat (map snd (group_append k x by_type))) = mset (concat (map snd by_type)) + {#x#}"
  by (induction by_type) auto

lemma map_fst_group_append:
  "map fst (group_append k x by_type)
     = (if k \<in> set (map fst by_type) then map fst by_type else map fst by_type @ [k])"
  by (induction by_type) (force simp add: image_iff)+

lemma keys_group_append:
  "set (map fst (group_append k x by_type)) = insert k (set (map fst by_type))"
  by (simp only: map_fst_group_append) auto

lemma map_of_group_append:
  "map_of (group_append k x by_type) k'
     = (if k' = k then Some ((case map_of by_type k of None \<Rightarrow> [] | Some xs \<Rightarrow> xs) @ [x])
        else map_of by_type k')"
  by (induction by_type) auto

text \<open>When every document type can be a key, grouping succeeds and keeps every file
  once; a property of the keys of the files is a property of the keys of the groups.\<close>

lemma group_by_type_keys:
  assumes "\<forall>f \<in> set json_files. \<exists>k. py_hash_key (get_document_type (content f)) = Inr k \<and> P k"
    and "\<forall>k \<in> set (map fst acc). P k"
  shows "\<exists>by_type. group_by_type content json_files acc = Inr by_type \<and>
           mset (concat (map snd by_type)) = mset (concat (map snd acc)) + mset json_files \<and>
           (\<forall>k \<in> set (map fst by_type). P k)"
  using assms
proof (induction json_files arbitrary: acc)
  case Nil
  then show ?case by simp
next
  case (Cons f fs)
  from Cons.prems(1) obtain k where
    k: "py_hash_key (get_document_type (content f)) = Inr k" and pk: "P k"
    by auto
  let ?acc = "group_append k f acc"
  have keys: "\<forall>k \<in> set (map fst ?acc). P k"
    using Cons.prems(2) pk by (simp only: keys_group_append) simp
  have rest: "\<forall>f \<in> set fs. \<exists>k. py_hash_key (get_document_type (content f)) = Inr k \<and> P k"
    using Cons.prems(1) by simp
  from Cons.IH [OF rest keys] obtain by_type where
    bt: "group_by_type content fs ?acc = Inr by_type"
      "mset (concat (map snd by_type)) = mset (concat (map snd ?acc)) + mset fs"
      "\<forall>k \<in> set (map fst by_type). P k"
    by blast
  have "group_by_type content (f # fs) acc = Inr by_type"
    using k bt(1) by simp
  moreover have "mset (concat (map snd by_type)) = mset (concat (map snd acc)) + mset (f # fs)"
    using bt(2) by (simp only: mset_group_append) simp
  ultimately show ?case using bt(3) by blast
qed

text \<open>A group that holds a file keeps it while the other files are grouped.\<close>

lemma group_by_type_keeps:
  assumes "group_by_type content json_files acc = Inr by_type"
    and "map_of acc k = Some xs" and "x \<in> set xs"
  shows "\<exists>ys. map_of by_type k = Some ys \<and> x \<in> set ys"
  using assms
proof (induction json_files arbitrary: acc xs)
  case Nil
  then show ?case by simp
next
  case (Cons f fs)
  from Cons.prems(1) obtain k' where
    k': "py_hash_key (get_document_type (content f)) = Inr k'"
    and rest: "group_by_type content fs (group_append k' f acc) = Inr by_type"
    by (cases "py_hash_key (get_document_type (content f))") auto
  have "\<exists>zs. map_of (group_append k' f acc) k = Some zs \<and> x \<in> set zs"
    using Cons.prems(2) Cons.prems(3) by (auto simp add: map_of_group_append)
  then obtain zs where "map_of (group_append k' f acc) k = Some zs" "x \<in> set zs"
    by blast
  from Cons.IH [OF rest this] show ?case .
qed

text \<open>When grouping succeeds, every file has a document type that can be a key, and is
  in the group of that key.\<close>

lemma group_by_type_hashable:
  assumes "group_by_type content json_files acc = Inr by_type"
    and "f \<in> set json_files"
  shows "\<exists>k. py_hash_key (get_document_type (content f)) = Inr k"
  using assms
proof (induction json_files arbitrary: acc)
  case Nil
  then show ?case by simp
next
  case (Cons f' fs)
  from Cons.prems(1) obtain k' where
    k': "py_hash_key (get_document_type (content f')) = Inr k'"
    and rest: "group_by_type content fs (group_append k' f' acc) = Inr by_type"
    by (cases "py_hash_key (get_document_type (content f'))") auto
  show ?case
  proof (cases "f = f'")
    case True
    with k' show ?thesis by blast
  next
    case False
    then have "f \<in> set fs" using Cons.prems(2) by simp
    from Cons.IH [OF rest this] show ?thesis .
  qed
qed

lemma group_by_type_member:
  assumes "group_by_type content json_files acc = Inr by_type"
    and "f \<in> set json_files"
    and "py_hash_key (get_document_type (content f)) = Inr k"
  shows "\<exists>ys. map_of by_type k = Some ys \<and> f \<in> set ys"
  using assms
proof (induction json_files arbitrary: acc)
  case Nil
  then show ?case by simp
next
  case (Cons f' fs)
  from Cons.prems(1) obtain k' where
    k': "py_hash_key (get_document_type (content f')) = Inr k'"
    and rest: "group_by_type content fs (group_append k' f' acc) = Inr by_type"
    by (cases "py_hash_key (get_document_type (content f'))") auto
  show ?case
  proof (cases "f = f'")
    case True
    then have "k' = k" using k' Cons.prems(3) by simp
    then have "\<exists>zs. map_of (group_append k' f' acc) k = Some zs \<and> f \<in> set zs"
      using True by (simp add: map_of_group_append)
    then obtain zs where "map_of (group_append k' f' acc) k = Some zs" "f \<in> set zs"
      by blast
    from group_by_type_keeps [OF rest this] show ?thesis .
  next
    case False
    then have "f \<in> set fs" using Cons.prems(2) by simp
    from Cons.IH [OF rest this Cons.prems(3)] show ?thesis .
  qed
qed

lemma group_by_type_key_present:
  assumes "group_by_type content json_files [] = Inr by_type"
    and "f \<in> set json_files"
  shows "\<exists>k. py_hash_key (get_document_type (content f)) = Inr k \<and> k \<in> set (map fst by_type)"
proof -
  from group_by_type_hashable [OF assms] obtain k where
    k: "py_hash_key (get_document_type (content f)) = Inr k" by blast
  from group_by_type_member [OF assms k] obtain ys where "map_of by_type k = Some ys"
    by blast
  then have "k \<in> set (map fst by_type)"
    by (auto dest!: map_of_SomeD intro: rev_image_eqI)
  with k show ?thesis by blast
qed

text \<open>Files of one document type form one group, in discovery order.\<close>

lemma group_single_key:
  assumes "\<forall>f \<in> set json_files. py_hash_key (get_document_type (content f)) = Inr k"
  shows "group_by_type content json_files [(k, xs)] = Inr [(k, xs @ json_files)]"
  using assms by (induction json_files arbitrary: xs) auto

lemma group_single_type:
  assumes "json_files \<noteq> []"
    and "\<forall>f \<in> set json_files. py_hash_key (get_document_type (content f)) = Inr k"
  shows "group_by_type content json_files [] = Inr [(k, json_files)]"
proof (cases json_files)
  case Nil
  with assms(1) show ?thesis by simp
next
  case (Cons f fs)
  then have "\<forall>f \<in> set fs. py_hash_key (get_document_type (content f)) = Inr k"
    using assms(2) by simp
  from group_single_key [OF this, of "[f]"] show ?thesis
    using Cons assms(2) by simp
qed

subsection \<open>Showing the document types\<close>

lemma shown_type_key:
  "shown_type rt v \<Longrightarrow> \<exists>k. py_hash_key v = Inr k \<and> is_str_key k \<and> \<not> markup_fails rt k"
  by (cases v) auto

lemma str_key_type:
  "py_hash_key v = Inr k \<Longrightarrow> is_str_key k \<Longrightarrow> \<not> markup_fails rt k \<Longrightarrow> shown_type rt v"
  by (cases v; cases k) (auto split: if_splits)

lemma none_key_type: "py_hash_key v = Inr KNone \<Longrightarrow> v = JNull"
  by (cases v) (auto split: if_splits)

lemma show_distribution_strings:
  assumes "\<forall>k \<in> set keys. is_str_key k \<and> \<not> markup_fails rt k"
  shows "show_distribution rt keys = Inr ()"
proof -
  have a: "list_all is_str_key keys" using assms by (simp add: list_all_iff)
  have "\<And>k. is_str_key k \<Longrightarrow> \<not> is_num_key k"
    by (case_tac k) auto
  then have b: "\<not> list_ex is_num_key keys" using assms by (auto simp add: list_ex_iff)
  have c: "\<not> list_ex (markup_fails rt) keys" using assms by (auto simp add: list_ex_iff)
  show ?thesis using a b c by (simp add: show_distribution_def)
qed

text \<open>The distribution is shown only for keys that are all accepted strings, or for the
  one key \<^verbatim>\<open>None\<close>.\<close>

lemma show_distribution_only:
  assumes "show_distribution rt keys = Inr ()" and "distinct keys"
  shows "(\<forall>k \<in> set keys. is_str_key k \<and> \<not> markup_fails rt k) \<or> (\<forall>k \<in> set keys. k = KNone)"
proof -
  have sorted: "\<not> (length keys \<ge> 2 \<and> \<not> list_all is_str_key keys \<and> \<not> list_all is_num_key keys)"
    and nonum: "\<not> list_ex is_num_key keys"
    and markup: "\<not> list_ex (markup_fails rt) keys"
    using assms(1) by (auto simp add: show_distribution_def split: if_splits)
  show ?thesis
  proof (cases "list_all is_str_key keys")
    case True
    with markup show ?thesis by (auto simp add: list_all_iff list_ex_iff)
  next
    case False
    have kinds: "\<And>k. k \<in> set keys \<Longrightarrow> is_str_key k \<or> k = KNone"
      using nonum by (case_tac k) (auto simp add: list_ex_iff)
    from False obtain k0 where k0: "k0 \<in> set keys" "\<not> is_str_key k0"
      by (auto simp add: list_all_iff)
    then have "\<not> list_all is_num_key keys"
      using nonum by (auto simp add: list_all_iff list_ex_iff)
    with sorted False have short: "length keys < 2" by auto
    have "\<And>k. k \<in> set keys \<Longrightarrow> k = k0"
    proof -
      fix k assume "k \<in> set keys"
      with k0(1) short show "k = k0"
        by (cases keys) (auto simp add: Suc_lessI)
    qed
    moreover have "k0 = KNone" using kinds k0 by blast
    ultimately show ?thesis by blast
  qed
qed

lemma distinct_group_append:
  "distinct (map fst by_type) \<Longrightarrow> distinct (map fst (group_append k x by_type))"
  by (simp add: map_fst_group_append)

lemma group_by_type_distinct:
  assumes "group_by_type content json_files acc = Inr by_type" and "distinct (map fst acc)"
  shows "distinct (map fst by_type)"
  using assms
proof (induction json_files arbitrary: acc)
  case Nil
  then show ?case by simp
next
  case (Cons f fs)
  from Cons.prems(1) obtain k' where
    rest: "group_by_type content fs (group_append k' f acc) = Inr by_type"
    by (cases "py_hash_key (get_document_type (content f))") auto
  from Cons.IH [OF rest distinct_group_append [OF Cons.prems(2)]] show ?case .
qed

lemma dict_get_absent: "k \<notin> set (dict_keys kvs) \<Longrightarrow> dict_get kvs k = None"
  by (simp add: dict_get_def dict_keys_def map_of_eq_None_iff)

lemma unknown_document_type:
  assumes "no_document_type fd"
  shows "get_document_type fd = JStr ''unknown''"
proof (cases fd)
  case (Parsed data)
  show ?thesis
  proof (cases data)
    case (JObj kvs)
    with Parsed assms have "dict_get kvs ''document_type'' = None"
      by (simp add: dict_get_absent)
    with Parsed JObj show ?thesis by (simp add: get_document_type_def)
  qed (simp_all add: Parsed get_document_type_def)
qed (simp_all add: get_document_type_def)

subsection \<open>The loop over the document types\<close>

lemma split_types_succeeds:
  assumes "\<forall>k \<in> set (map fst by_type). \<not> markup_fails rt k"
  shows "\<exists>result. split_types rt train_ratio val_ratio g by_type sp = Inr result"
  using assms
proof (induction by_type arbitrary: g sp)
  case Nil
  then show ?case by simp
next
  case (Cons group rest)
  obtain doc_type files where group: "group = (doc_type, files)" by (cases group)
  obtain shuffled g' where sh: "rng_shuffle rt g files = (shuffled, g')"
    by (cases "rng_shuffle rt g files")
  obtain tr va te where sg: "split_group rt train_ratio val_ratio shuffled = (tr, va, te)"
    by (cases "split_group rt train_ratio val_ratio shuffled") auto
  have pp: "print_progress rt doc_type = Inr ()"
    using Cons.prems group by (simp add: print_progress_def)
  have rest: "\<forall>k \<in> set (map fst rest). \<not> markup_fails rt k"
    using Cons.prems by simp
  from Cons.IH [OF rest] show ?case
    by (simp add: group sh sg pp)
qed

text \<open>With ratios that are not negative, the loop adds every file of every group to
  exactly one of the three lists.\<close>

lemma split_types_mset:
  assumes "shuffle_permutes rt" and "keeps_sign rt" and "0 \<le> train_ratio" and "0 \<le> val_ratio"
    and "split_types rt train_ratio val_ratio g by_type sp = Inr result"
  shows "mset (train_files result) + mset (val_files result) + mset (test_files result)
         = mset (train_files sp) + mset (val_files sp) + mset (test_files sp)
           + mset (concat (map snd by_type))"
  using assms(5)
proof (induction by_type arbitrary: g sp)
  case Nil
  then show ?case by simp
next
  case (Cons group rest)
  obtain doc_type files where group: "group = (doc_type, files)" by (cases group)
  obtain shuffled g' where sh: "rng_shuffle rt g files = (shuffled, g')"
    by (cases "rng_shuffle rt g files")
  obtain tr va te where sg: "split_group rt train_ratio val_ratio shuffled = (tr, va, te)"
    by (cases "split_group rt train_ratio val_ratio shuffled") auto
  have perm: "mset shuffled = mset files"
    using assms(1) sh by (metis fst_conv shuffle_permutes_def)
  have "tr @ va @ te = shuffled"
    using split_group_concat [OF assms(2) assms(3) assms(4) sg] .
  then have parts: "mset tr + mset va + mset te = mset files"
    using perm by (metis mset_append add.assoc)
  let ?sp = "\<lparr>train_files = train_files sp @ tr, val_files = val_files sp @ va,
              test_files = test_files sp @ te\<rparr>"
  have step: "split_types rt train_ratio val_ratio g' rest ?sp = Inr result"
    using Cons.prems
    by (cases "print_progress rt doc_type") (simp_all add: group sh sg)
  have "mset (train_files ?sp) + mset (val_files ?sp) + mset (test_files ?sp)
          = mset (train_files sp) + mset (val_files sp) + mset (test_files sp)
            + (mset tr + mset va + mset te)"
    by simp
  then show ?case
    unfolding Cons.IH [OF step] parts
    by (simp add: group)
qed

text \<open>Whatever the ratios, the loop leaves no file out.\<close>

lemma split_types_cover:
  assumes "shuffle_permutes rt"
    and "split_types rt train_ratio val_ratio g by_type sp = Inr result"
  shows "set (train_files sp) \<union> set (val_files sp) \<union> set (test_files sp)
           \<union> set (concat (map snd by_type))
         \<subseteq> set (train_files result) \<union> set (val_files result) \<union> set (test_files result)"
  using assms(2)
proof (induction by_type arbitrary: g sp)
  case Nil
  then show ?case by auto
next
  case (Cons group rest)
  obtain doc_type files where group: "group = (doc_type, files)" by (cases group)
  obtain shuffled g' where sh: "rng_shuffle rt g files = (shuffled, g')"
    by (cases "rng_shuffle rt g files")
  obtain tr va te where sg: "split_group rt train_ratio val_ratio shuffled = (tr, va, te)"
    by (cases "split_group rt train_ratio val_ratio shuffled") auto
  have "mset shuffled = mset files"
    using assms(1) sh by (metis fst_conv shuffle_permutes_def)
  then have "set shuffled = set files" by (rule mset_eq_setD)
  then have cover: "set files \<subseteq> set tr \<union> set va \<union> set te"
    using split_group_cover [OF sg] by simp
  let ?sp = "\<lparr>train_files = train_files sp @ tr, val_files = val_files sp @ va,
              test_files = test_files sp @ te\<rparr>"
  have step: "split_types rt train_ratio val_ratio g' rest ?sp = Inr result"
    using Cons.prems
    by (cases "print_progress rt doc_type") (simp_all add: group sh sg)
  have "set (train_files sp) \<union> set (val_files sp) \<union> set (test_files sp)
           \<union> set (concat (map snd (group # rest)))
        \<subseteq> set (train_files ?sp) \<union> set (val_files ?sp) \<union> set (test_files ?sp)
           \<union> set (concat (map snd rest))"
    using cover by (auto simp add: group)
  also have "\<dots> \<subseteq> set (train_files result) \<union> set (val_files result) \<union> set (test_files result)"
    by (rule Cons.IH [OF step])
  finally show ?case .
qed

subsection \<open>Runs of the command\<close>

lemma computed_after_loop:
  assumes "\<not> ratios_rejected rt train_ratio val_ratio test_ratio"
    and "json_files \<noteq> []"
    and "group_by_type content json_files [] = Inr by_type"
    and "show_distribution rt (map fst by_type) = Inr ()"
    and "split_types rt train_ratio val_ratio (rng_seed rt seed g0) by_type
           \<lparr>train_files = [], val_files = [], test_files = []\<rparr> = Inr sp"
  shows "computed_split
           (main rt g0 content json_files train_ratio val_ratio test_ratio seed confirm) = Some sp"
  using assms by (simp add: main_def Let_def split: option.splits)

text \<open>With accepted ratios, at least one file and document types that can be shown, the
  run gets through the loop and the split it computed is the result of the loop.\<close>

lemma main_on_displayable:
  assumes "\<not> ratios_rejected rt train_ratio val_ratio test_ratio"
    and "json_files \<noteq> []"
    and "displayable_types rt content json_files"
  shows "\<exists>by_type sp. group_by_type content json_files [] = Inr by_type \<and>
           mset (concat (map snd by_type)) = mset json_files \<and>
           split_types rt train_ratio val_ratio (rng_seed rt seed g0) by_type
             \<lparr>train_files = [], val_files = [], test_files = []\<rparr> = Inr sp \<and>
           computed_split
             (main rt g0 content json_files train_ratio val_ratio test_ratio seed confirm)
             = Some sp"
proof -
  have "\<exists>by_type. group_by_type content json_files [] = Inr by_type \<and>
           mset (concat (map snd by_type)) = mset json_files \<and>
           show_distribution rt (map fst by_type) = Inr () \<and>
           (\<forall>k \<in> set (map fst by_type). \<not> markup_fails rt k)"
  proof (cases "list_all (\<lambda>f. shown_type rt (get_document_type (content f))) json_files")
    case True
    then have "\<forall>f \<in> set json_files. \<exists>k. py_hash_key (get_document_type (content f)) = Inr k \<and>
                 (is_str_key k \<and> \<not> markup_fails rt k)"
      using shown_type_key by (auto simp add: list_all_iff)
    from group_by_type_keys [of json_files content
        "\<lambda>k. is_str_key k \<and> \<not> markup_fails rt k" "[]", OF this]
    obtain by_type where
      bt: "group_by_type content json_files [] = Inr by_type"
        "mset (concat (map snd by_type)) = mset json_files"
        "\<forall>k \<in> set (map fst by_type). is_str_key k \<and> \<not> markup_fails rt k"
      by auto
    from show_distribution_strings [OF bt(3)] bt show ?thesis by blast
  next
    case False
    with assms(3) have "list_all (\<lambda>f. get_document_type (content f) = JNull) json_files"
      by (simp add: displayable_types_def)
    then have "\<forall>f \<in> set json_files. get_document_type (content f) = JNull"
      by (simp add: list_all_iff)
    then have "\<forall>f \<in> set json_files. py_hash_key (get_document_type (content f)) = Inr KNone"
      by simp
    from group_single_type [OF assms(2) this]
    have "group_by_type content json_files [] = Inr [(KNone, json_files)]" .
    moreover have "show_distribution rt (map fst [(KNone, json_files)]) = Inr ()"
      by (simp add: show_distribution_def)
    ultimately show ?thesis by auto
  qed
  then obtain by_type where
    bt: "group_by_type content json_files [] = Inr by_type"
      "mset (concat (map snd by_type)) = mset json_files"
      "show_distribution rt (map fst by_type) = Inr ()"
      "\<forall>k \<in> set (map fst by_type). \<not> markup_fails rt k"
    by blast
  from split_types_succeeds [OF bt(4)] obtain sp where
    sp: "split_types rt train_ratio val_ratio (rng_seed rt seed g0) by_type
             \<lparr>train_files = [], val_files = [], test_files = []\<rparr> = Inr sp"
    by blast
  from computed_after_loop [OF assms(1) assms(2) bt(1) bt(3) sp] bt(1) bt(2) sp
  show ?thesis by blast
qed

text \<open>With other document types no split is computed: a type that cannot be a key, keys
  that cannot be sorted, a number or a string that the console does not accept end the
  run before the loop.\<close>

lemma undisplayable_types_no_split:
  assumes "\<not> displayable_types rt content json_files"
  shows "computed_split
           (main rt g0 content json_files train_ratio val_ratio test_ratio seed confirm) = None"
proof (rule ccontr)
  assume "computed_split
           (main rt g0 content json_files train_ratio val_ratio test_ratio seed confirm) \<noteq> None"
  then obtain by_type where
    grp: "group_by_type content json_files [] = Inr by_type"
    and sd: "show_distribution rt (map fst by_type) = Inr ()"
    by (auto simp add: main_def Let_def split: if_splits sum.splits)
  have "distinct (map fst by_type)"
    using group_by_type_distinct [OF grp] by simp
  from show_distribution_only [OF sd this]
  have "displayable_types rt content json_files"
  proof
    assume str: "\<forall>k \<in> set (map fst by_type). is_str_key k \<and> \<not> markup_fails rt k"
    have "\<forall>f \<in> set json_files. shown_type rt (get_document_type (content f))"
    proof
      fix f assume "f \<in> set json_files"
      from group_by_type_key_present [OF grp this] obtain k where
        "py_hash_key (get_document_type (content f)) = Inr k" "k \<in> set (map fst by_type)"
        by blast
      with str show "shown_type rt (get_document_type (content f))"
        using str_key_type by blast
    qed
    then show ?thesis by (simp add: displayable_types_def list_all_iff)
  next
    assume none: "\<forall>k \<in> set (map fst by_type). k = KNone"
    have "\<forall>f \<in> set json_files. get_document_type (content f) = JNull"
    proof
      fix f assume "f \<in> set json_files"
      from group_by_type_key_present [OF grp this] obtain k where
        "py_hash_key (get_document_type (content f)) = Inr k" "k \<in> set (map fst by_type)"
        by blast
      with none have "py_hash_key (get_document_type (content f)) = Inr KNone"
        by auto
      then show "get_document_type (content f) = JNull"
        by (rule none_key_type)
    qed
    then show ?thesis by (simp add: displayable_types_def list_all_iff)
  qed
  with assms show False by simp
qed

text \<open>Two runs of the stand-in that end before the loop: the document type
  \<^verbatim>\<open>[/red]\<close> is refused by the console, and the keys \<^verbatim>\<open>None\<close> and \<^verbatim>\<open>"unknown"\<close>
  cannot be sorted.\<close>

lemma closing_tag_raises:
  "main rotating 0 closing_tag [0, 1, 2, 3] (1/2) (1/4) (1/4) 1 True = Raised MarkupError"
  by code_simp

lemma null_only_is_split:
  "main rotating 0 null_and_broken [0] (1/2) (1/4) (1/4) 1 True
     = Completed \<lparr>train_files = [], val_files = [], test_files = [0]\<rparr>"
  by code_simp

text \<open>
  Claim C1. For every ratio triple that the check of line 67 accepts and every non-empty
  list of records, the three lists of the splitter are said to be pairwise disjoint and to
  hold every record once. This fails when a ratio is negative: \<^verbatim>\<open>n_train\<close> or
  \<^verbatim>\<open>n_train + n_val\<close> is then negative or zero where it should not be, the slices of
  lines 123 to 125 count from the end of the list, and records land both in train and in
  test (no record is ever left out). The claim as amended: for every ratio triple that the
  check accepts and whose train and validation ratios are not negative, and every
  non-empty list of distinct records whose document types the run can show (every record
  a string that the console accepts, or every record \<^verbatim>\<open>null\<close>; no split is computed for
  other types), the three lists that the run computes are pairwise disjoint and hold every
  record exactly once. Writing the lists to the target directories is not part of the
  statement.
\<close>

theorem split_is_partition:
  assumes "\<not> ratios_rejected rt train_ratio val_ratio test_ratio"
    and "0 \<le> train_ratio" and "0 \<le> val_ratio"
    and "json_files \<noteq> []" and "distinct json_files"
    and "displayable_types rt content json_files"
    and "keeps_sign rt" and "shuffle_permutes rt"
  shows "\<exists>sp. computed_split
                (main rt g0 content json_files train_ratio val_ratio test_ratio seed confirm)
                = Some sp \<and>
              partitions json_files sp"
proof -
  from main_on_displayable [OF assms(1) assms(4) assms(6), of seed g0 confirm]
  obtain by_type sp where
    bt: "mset (concat (map snd by_type)) = mset json_files"
    and st: "split_types rt train_ratio val_ratio (rng_seed rt seed g0) by_type
             \<lparr>train_files = [], val_files = [], test_files = []\<rparr> = Inr sp"
    and m: "computed_split
             (main rt g0 content json_files train_ratio val_ratio test_ratio seed confirm)
             = Some sp"
    by blast
  have all: "mset (train_files sp) + mset (val_files sp) + mset (test_files sp) = mset json_files"
    unfolding split_types_mset [OF assms(8) assms(7) assms(2) assms(3) st] bt by simp
  then have "mset (train_files sp @ val_files sp @ test_files sp) = mset json_files"
    by (simp add: add.assoc)
  then have "distinct (train_files sp @ val_files sp @ test_files sp)"
    using assms(5) by (metis mset_eq_imp_distinct_iff)
  then have "set (train_files sp) \<inter> set (val_files sp) = {} \<and>
             set (train_files sp) \<inter> set (test_files sp) = {} \<and>
             set (val_files sp) \<inter> set (test_files sp) = {}"
    by auto
  with all have "partitions json_files sp" by (simp add: partitions_def)
  with m show ?thesis by blast
qed

theorem split_is_partition_witness:
  "\<not> ratios_rejected (rotating :: (nat, nat) runtime) (1/2) (1/4) (1/4) \<and>
   (0::rat) \<le> 1/2 \<and> (0::rat) \<le> 1/4 \<and>
   [0, 1, 2, 3::nat] \<noteq> [] \<and> distinct [0, 1, 2, 3::nat] \<and>
   displayable_types rotating all_invoices [0, 1, 2, 3] \<and>
   keeps_sign (rotating :: (nat, nat) runtime) \<and>
   shuffle_permutes (rotating :: (nat, nat) runtime) \<and>
   computed_split (main rotating 0 all_invoices [0, 1, 2, 3] (1/2) (1/4) (1/4) 1 True)
     = Some \<lparr>train_files = [1, 2], val_files = [3], test_files = [0]\<rparr> \<and>
   partitions [0, 1, 2, 3::nat] \<lparr>train_files = [1, 2], val_files = [3], test_files = [0]\<rparr>"
proof -
  have h2: "(0::rat) \<le> 1/2" by simp
  have h3: "(0::rat) \<le> 1/4" by simp
  have h4: "[0, 1, 2, 3::nat] \<noteq> []" by simp
  have h5: "distinct [0, 1, 2, 3::nat]" by simp
  have h6: "displayable_types rotating all_invoices [0, 1, 2, 3]"
    by (rule all_invoices_displayable)
  have run: "computed_split (main rotating 0 all_invoices [0, 1, 2, 3] (1/2) (1/4) (1/4) 1 True)
     = Some \<lparr>train_files = [1, 2], val_files = [3], test_files = [0]\<rparr>"
    by code_simp
  from split_is_partition
         [OF rotating_accepts h2 h3 h4 h5 h6 rotating_keeps_sign rotating_permutes, of 0 1 True]
  have "partitions [0, 1, 2, 3::nat] \<lparr>train_files = [1, 2], val_files = [3], test_files = [0]\<rparr>"
    unfolding run by simp
  with rotating_accepts h2 h3 h4 h5 h6 run rotating_keeps_sign rotating_permutes
  show ?thesis by simp
qed

text \<open>The ratios -0.5, 0.5 and 1.0 sum to 1. On four invoices, in the order the shuffle
  leaves them, \<^verbatim>\<open>n_train\<close> is -2 and \<^verbatim>\<open>n_val\<close> is 2: \<^verbatim>\<open>files[:-2]\<close> holds the first
  two files, \<^verbatim>\<open>files[-2:0]\<close> none and \<^verbatim>\<open>files[0:]\<close> all four.\<close>

theorem negative_ratio_counterexample:
  "\<not> ratios_rejected (rotating :: (nat, nat) runtime) (- 1/2) (1/2) 1 \<and>
   main rotating 0 all_invoices [0, 1, 2, 3] (- 1/2) (1/2) 1 0 True
     = Completed \<lparr>train_files = [0, 1], val_files = [], test_files = [0, 1, 2, 3]\<rparr> \<and>
   \<not> partitions [0, 1, 2, 3::nat]
        \<lparr>train_files = [0, 1], val_files = [], test_files = [0, 1, 2, 3]\<rparr>"
proof -
  have "\<not> ratios_rejected (rotating :: (nat, nat) runtime) (- 1/2) (1/2) 1"
    by (simp add: ratios_rejected_def total_ratio_def rotating_def)
  moreover have "main rotating 0 all_invoices [0, 1, 2, 3] (- 1/2) (1/2) 1 0 True
     = Completed \<lparr>train_files = [0, 1], val_files = [], test_files = [0, 1, 2, 3]\<rparr>"
    by code_simp
  moreover have "\<not> partitions [0, 1, 2, 3::nat]
        \<lparr>train_files = [0, 1], val_files = [], test_files = [0, 1, 2, 3]\<rparr>"
    by (simp add: partitions_def)
  ultimately show ?thesis by simp
qed

text \<open>
  Claim C2. For records of one document type, \<open>n\<close> of them, and every accepted ratio
  triple, train is said to get \<open>floor (n * r_train)\<close> records, validation
  \<open>floor (n * r_val)\<close> and test the \<open>n - floor (n * r_train) - floor (n * r_val)\<close> that
  remain. The check of line 67 accepts ratios whose sum exceeds 1 by up to 0.01, and then
  the two counts can exceed \<open>n\<close> together: the slice of line 124 is cut at the end of the
  list, validation gets fewer records than its count and test none. (With a negative ratio
  the counts are not those of the claim either.) The claim as amended: for records of one
  document type that the run can show (a string that the console accepts, or \<^verbatim>\<open>null\<close>),
  \<open>n\<close> of them, and every ratio triple that the check accepts, whose train and validation
  ratios are not negative and for which
  \<open>floor (n * r_train) + floor (n * r_val) \<le> n\<close>, the train, validation and test lists
  that the run computes have these three lengths; the products are those the code
  computes, \<open>int_times_float\<close>.
\<close>

theorem single_type_counts:
  assumes "\<not> ratios_rejected rt train_ratio val_ratio test_ratio"
    and "0 \<le> train_ratio" and "0 \<le> val_ratio"
    and "json_files \<noteq> []"
    and "\<forall>f \<in> set json_files. get_document_type (content f) = doc_type"
    and "displayable_types rt content json_files"
    and "keeps_sign rt" and "shuffle_permutes rt"
    and "\<lfloor>int_times_float rt (length json_files) train_ratio\<rfloor>
           + \<lfloor>int_times_float rt (length json_files) val_ratio\<rfloor> \<le> int (length json_files)"
  shows "\<exists>sp. computed_split
                (main rt g0 content json_files train_ratio val_ratio test_ratio seed confirm)
                = Some sp \<and>
              int (length (train_files sp))
                = \<lfloor>int_times_float rt (length json_files) train_ratio\<rfloor> \<and>
              int (length (val_files sp))
                = \<lfloor>int_times_float rt (length json_files) val_ratio\<rfloor> \<and>
              int (length (test_files sp))
                = int (length json_files)
                    - \<lfloor>int_times_float rt (length json_files) train_ratio\<rfloor>
                    - \<lfloor>int_times_float rt (length json_files) val_ratio\<rfloor>"
proof -
  let ?n = "length json_files"
  from main_on_displayable [OF assms(1) assms(4) assms(6), of seed g0 confirm]
  obtain by_type sp where
    grp: "group_by_type content json_files [] = Inr by_type"
    and st: "split_types rt train_ratio val_ratio (rng_seed rt seed g0) by_type
             \<lparr>train_files = [], val_files = [], test_files = []\<rparr> = Inr sp"
    and m: "computed_split
             (main rt g0 content json_files train_ratio val_ratio test_ratio seed confirm)
             = Some sp"
    by blast
  obtain f0 where f0: "f0 \<in> set json_files" using assms(4) by (cases json_files) auto
  from group_by_type_hashable [OF grp f0] obtain k where
    "py_hash_key (get_document_type (content f0)) = Inr k" by blast
  then have "\<forall>f \<in> set json_files. py_hash_key (get_document_type (content f)) = Inr k"
    using assms(5) f0 by simp
  from group_single_type [OF assms(4) this] grp
  have bt: "by_type = [(k, json_files)]" by simp
  obtain shuffled g' where sh: "rng_shuffle rt (rng_seed rt seed g0) json_files = (shuffled, g')"
    by (cases "rng_shuffle rt (rng_seed rt seed g0) json_files")
  have "mset shuffled = mset json_files"
    using assms(8) sh by (metis fst_conv shuffle_permutes_def)
  then have len: "length shuffled = ?n" by (rule mset_eq_length)
  let ?a = "py_int (int_times_float rt ?n train_ratio)"
  let ?b = "py_int (int_times_float rt ?n val_ratio)"
  have a: "?a = \<lfloor>int_times_float rt ?n train_ratio\<rfloor>" "0 \<le> ?a"
    using count_nonneg [OF assms(7) assms(2), of ?n] by blast+
  have b: "?b = \<lfloor>int_times_float rt ?n val_ratio\<rfloor>" "0 \<le> ?b"
    using count_nonneg [OF assms(7) assms(3), of ?n] by blast+
  have ab: "?a + ?b \<le> int (length shuffled)"
    using assms(9) a(1) b(1) len by simp
  have parts: "sp = \<lparr>train_files = py_slice shuffled None (Some ?a),
                     val_files = py_slice shuffled (Some ?a) (Some (?a + ?b)),
                     test_files = py_slice shuffled (Some (?a + ?b)) None\<rparr>"
    using st unfolding bt
    by (cases "print_progress rt k") (simp_all add: sh split_group_def Let_def len)
  have "int (length (train_files sp)) = ?a"
    and "int (length (val_files sp)) = ?b"
    and "int (length (test_files sp)) = int ?n - ?a - ?b"
    using slices_lengths [OF a(2) b(2) ab] by (simp_all add: parts len)
  with m show ?thesis unfolding a(1) b(1) by blast
qed

theorem single_type_counts_witness:
  "\<not> ratios_rejected (rotating :: (nat, nat) runtime) (1/2) (1/4) (1/4) \<and>
   (0::rat) \<le> 1/2 \<and> (0::rat) \<le> 1/4 \<and>
   [0, 1, 2, 3, 4::nat] \<noteq> [] \<and>
   list_all (\<lambda>f. get_document_type (all_invoices f) = JStr ''invoice'') [0, 1, 2, 3, 4] \<and>
   displayable_types rotating all_invoices [0, 1, 2, 3, 4] \<and>
   keeps_sign (rotating :: (nat, nat) runtime) \<and>
   shuffle_permutes (rotating :: (nat, nat) runtime) \<and>
   \<lfloor>int_times_float (rotating :: (nat, nat) runtime) (length [0, 1, 2, 3, 4::nat]) (1/2)\<rfloor>
     + \<lfloor>int_times_float (rotating :: (nat, nat) runtime) (length [0, 1, 2, 3, 4::nat]) (1/4)\<rfloor>
     \<le> int (length [0, 1, 2, 3, 4::nat]) \<and>
   (\<exists>sp. computed_split (main rotating 0 all_invoices [0, 1, 2, 3, 4] (1/2) (1/4) (1/4) 1 True)
           = Some sp \<and>
         int (length (train_files sp)) = 2 \<and> int (length (val_files sp)) = 1 \<and>
         int (length (test_files sp)) = 2)"
proof -
  have h2: "(0::rat) \<le> 1/2" by simp
  have h3: "(0::rat) \<le> 1/4" by simp
  have h4: "[0, 1, 2, 3, 4::nat] \<noteq> []" by simp
  have h5: "\<forall>f \<in> set [0, 1, 2, 3, 4]. get_document_type (all_invoices f) = JStr ''invoice''"
    by (simp add: all_invoices_type)
  have h6: "displayable_types rotating all_invoices [0, 1, 2, 3, 4]"
    by (rule all_invoices_displayable)
  have f1: "\<lfloor>int_times_float (rotating :: (nat, nat) runtime) (length [0, 1, 2, 3, 4::nat]) (1/2)\<rfloor> = 2"
    by code_simp
  have f2: "\<lfloor>int_times_float (rotating :: (nat, nat) runtime) (length [0, 1, 2, 3, 4::nat]) (1/4)\<rfloor> = 1"
    by code_simp
  have h9: "\<lfloor>int_times_float (rotating :: (nat, nat) runtime) (length [0, 1, 2, 3, 4::nat]) (1/2)\<rfloor>
     + \<lfloor>int_times_float (rotating :: (nat, nat) runtime) (length [0, 1, 2, 3, 4::nat]) (1/4)\<rfloor>
     \<le> int (length [0, 1, 2, 3, 4::nat])"
    unfolding f1 f2 by simp
  from single_type_counts
         [OF rotating_accepts h2 h3 h4 h5 h6 rotating_keeps_sign rotating_permutes h9,
          of 0 1 True]
  have "\<exists>sp. computed_split (main rotating 0 all_invoices [0, 1, 2, 3, 4] (1/2) (1/4) (1/4) 1 True)
           = Some sp \<and>
         int (length (train_files sp)) = 2 \<and> int (length (val_files sp)) = 1 \<and>
         int (length (test_files sp)) = 2"
    unfolding f1 f2 by simp
  with rotating_accepts h2 h3 h4 h5 h6 h9 rotating_keeps_sign rotating_permutes
  show ?thesis by (simp add: list_all_iff)
qed

text \<open>The ratios 0.5, 0.5078125 and 0 sum to 1.0078125 and are accepted. On 128 invoices
  \<^verbatim>\<open>n_train\<close> is 64 and \<^verbatim>\<open>n_val\<close> is 65, the floors of the claim, and
  \<^verbatim>\<open>files[64:129]\<close> holds 64 files.\<close>

theorem validation_count_counterexample:
  "\<not> ratios_rejected (rotating :: (nat, nat) runtime) (1/2) (65/128) 0 \<and>
   map_option (length \<circ> val_files)
     (computed_split (main rotating 0 all_invoices [0..<128] (1/2) (65/128) 0 0 True)) = Some 64 \<and>
   \<lfloor>int_times_float (rotating :: (nat, nat) runtime) (length [0..<128]) (65/128)\<rfloor> = 65"
proof -
  have "\<not> ratios_rejected (rotating :: (nat, nat) runtime) (1/2) (65/128) 0"
    by (simp add: ratios_rejected_def total_ratio_def rotating_def)
  moreover have "map_option (length \<circ> val_files)
     (computed_split (main rotating 0 all_invoices [0..<128] (1/2) (65/128) 0 0 True)) = Some 64"
    by code_simp
  moreover have
    "\<lfloor>int_times_float (rotating :: (nat, nat) runtime) (length [0..<128]) (65/128)\<rfloor> = 65"
    by code_simp
  ultimately show ?thesis by simp
qed

text \<open>
  Claim C3. Two runs with the same seed, the same ratios and the same files in the same
  discovery order compute the same train, validation and test lists, whatever the state of
  the generator was when each run started and whatever the user answers to the prompt:
  \<^verbatim>\<open>random.seed(seed)\<close> is the first statement of \<^verbatim>\<open>main\<close>.
\<close>

theorem split_deterministic:
  assumes "seed_resets rt"
  shows "computed_split
           (main rt g0 content json_files train_ratio val_ratio test_ratio seed confirm)
       = computed_split
           (main rt g0' content json_files train_ratio val_ratio test_ratio seed confirm')"
proof -
  have g: "rng_seed rt seed g0 = rng_seed rt seed g0'"
    using assms by (simp add: seed_resets_def)
  show ?thesis
    unfolding main_def Let_def g
    by (simp split: sum.splits option.splits)
qed

theorem split_deterministic_witness:
  "seed_resets (rotating :: (nat, nat) runtime) \<and>
   computed_split (main rotating 0 all_invoices [0, 1, 2, 3] (1/2) (1/4) (1/4) 1 True)
     = computed_split (main rotating 7 all_invoices [0, 1, 2, 3] (1/2) (1/4) (1/4) 1 False)"
  using rotating_resets
    split_deterministic [OF rotating_resets,
      of 0 all_invoices "[0, 1, 2, 3]" "1/2" "1/4" "1/4" 1 True 7 False]
  by simp

text \<open>
  Claim C5. For every ratio triple that the check of line 67 rejects, that is whose sum
  differs from 1.0 by more than 0.01, the splitter fails before it groups or partitions
  anything and before it touches a file, and the process ends with status 1. The failure
  that ends the run at line 69, after the message about the ratios was printed, is the
  \<^verbatim>\<open>NameError\<close> of the name \<^verbatim>\<open>sys\<close>.
\<close>

theorem invalid_ratio_sum_fails:
  assumes "ratios_rejected rt train_ratio val_ratio test_ratio"
  shows "main rt g0 content json_files train_ratio val_ratio test_ratio seed confirm
           = Raised (NameError ''sys'') \<and>
         exit_status
           (main rt g0 content json_files train_ratio val_ratio test_ratio seed confirm) = 1 \<and>
         computed_split
           (main rt g0 content json_files train_ratio val_ratio test_ratio seed confirm) = None \<and>
         written_split
           (main rt g0 content json_files train_ratio val_ratio test_ratio seed confirm) = None"
  using assms by (simp add: main_def Let_def)

theorem invalid_ratio_sum_fails_witness:
  "ratios_rejected (rotating :: (nat, nat) runtime) (1/2) (1/2) (1/2) \<and>
   main rotating 0 all_invoices [0, 1, 2, 3] (1/2) (1/2) (1/2) 42 True
     = Raised (NameError ''sys'') \<and>
   exit_status (main rotating 0 all_invoices [0, 1, 2, 3] (1/2) (1/2) (1/2) 42 True) = 1"
proof -
  have h: "ratios_rejected (rotating :: (nat, nat) runtime) (1/2) (1/2) (1/2)"
    by (simp add: ratios_rejected_def total_ratio_def rotating_def)
  show ?thesis
    using h invalid_ratio_sum_fails [OF h, of 0 all_invoices "[0, 1, 2, 3]" 42 True]
    by simp
qed

text \<open>
  Claim C6. A run over an input without records is said to abort as a failure. With
  ratios that the check of line 67 accepts, the run prints that no annotation files were
  found and returns at line 76: nothing is partitioned or written, and the process ends
  with status 0, the status of a success. The claim as amended: such a run stops early,
  computes and writes no partition, and ends with exit status 0.
\<close>

theorem no_records_returns_early:
  assumes "\<not> ratios_rejected rt train_ratio val_ratio test_ratio"
  shows "main rt g0 content [] train_ratio val_ratio test_ratio seed confirm = No_annotations \<and>
         exit_status
           (main rt g0 content [] train_ratio val_ratio test_ratio seed confirm) = 0 \<and>
         computed_split
           (main rt g0 content [] train_ratio val_ratio test_ratio seed confirm) = None \<and>
         written_split
           (main rt g0 content [] train_ratio val_ratio test_ratio seed confirm) = None"
  using assms by (simp add: main_def Let_def)

theorem no_records_returns_early_witness:
  "\<not> ratios_rejected (rotating :: (nat, nat) runtime) (1/2) (1/4) (1/4) \<and>
   main rotating 0 all_invoices [] (1/2) (1/4) (1/4) 42 True = No_annotations \<and>
   exit_status (main rotating 0 all_invoices [] (1/2) (1/4) (1/4) 42 True) = 0"
  using rotating_accepts
    no_records_returns_early [OF rotating_accepts, of 0 all_invoices 42 True]
  by simp

text \<open>The run over no records, with the ratios 0.5, 0.25 and 0.25, is not a failure of
  the process.\<close>

theorem no_records_exit_status_counterexample:
  "\<not> exit_status (main rotating 0 all_invoices [] (1/2) (1/4) (1/4) 42 True) \<noteq> 0"
  by (simp add: main_def Let_def ratios_rejected_def total_ratio_def rotating_def)

text \<open>
  Claim C9. A record whose file does not parse, or whose value has no top-level
  \<^verbatim>\<open>document_type\<close>, is said never to make the splitter fail and to be put in one of the
  three partitions under the type \<^verbatim>\<open>"unknown"\<close>. \<^verbatim>\<open>get_document_type\<close> does give it the
  type \<^verbatim>\<open>"unknown"\<close> instead of an exception, but next to a record whose
  \<^verbatim>\<open>document_type\<close> is \<^verbatim>\<open>null\<close> this key is what makes the run fail: the keys
  \<^verbatim>\<open>None\<close> and \<^verbatim>\<open>"unknown"\<close> cannot be sorted at line 95, and no split is computed.
  The claim as amended: such a record gets the document type \<^verbatim>\<open>"unknown"\<close>; in a run
  with ratios that the check accepts, over records whose document types the run can show
  (with \<^verbatim>\<open>"unknown"\<close> among them: strings that the console accepts), the record is in
  the group \<^verbatim>\<open>"unknown"\<close> of \<^verbatim>\<open>by_type\<close>, the run computes a split, and the record is in
  one of its three lists, whatever the sign of the ratios. Whether the record is then
  copied is not part of the statement.
\<close>

theorem unknown_record_is_split:
  assumes "\<not> ratios_rejected rt train_ratio val_ratio test_ratio"
    and "f \<in> set json_files"
    and "no_document_type (content f)"
    and "displayable_types rt content json_files"
    and "shuffle_permutes rt"
  shows "get_document_type (content f) = JStr ''unknown'' \<and>
         (\<exists>by_type fs. group_by_type content json_files [] = Inr by_type \<and>
                        map_of by_type (KStr ''unknown'') = Some fs \<and> f \<in> set fs) \<and>
         (\<exists>sp. computed_split
                  (main rt g0 content json_files train_ratio val_ratio test_ratio seed confirm)
                  = Some sp \<and>
               f \<in> set (train_files sp) \<union> set (val_files sp) \<union> set (test_files sp))"
proof -
  have u: "get_document_type (content f) = JStr ''unknown''"
    using assms(3) by (rule unknown_document_type)
  have ne: "json_files \<noteq> []" using assms(2) by auto
  from main_on_displayable [OF assms(1) ne assms(4), of seed g0 confirm]
  obtain by_type sp where
    grp: "group_by_type content json_files [] = Inr by_type"
    and bt: "mset (concat (map snd by_type)) = mset json_files"
    and st: "split_types rt train_ratio val_ratio (rng_seed rt seed g0) by_type
             \<lparr>train_files = [], val_files = [], test_files = []\<rparr> = Inr sp"
    and m: "computed_split
             (main rt g0 content json_files train_ratio val_ratio test_ratio seed confirm)
             = Some sp"
    by blast
  have "py_hash_key (get_document_type (content f)) = Inr (KStr ''unknown'')"
    by (simp add: u)
  from group_by_type_member [OF grp assms(2) this]
  have g: "\<exists>by_type fs. group_by_type content json_files [] = Inr by_type \<and>
                        map_of by_type (KStr ''unknown'') = Some fs \<and> f \<in> set fs"
    using grp by blast
  have "set (concat (map snd by_type)) = set json_files"
    using bt by (rule mset_eq_setD)
  then have "f \<in> set (concat (map snd by_type))" using assms(2) by simp
  then have "f \<in> set (train_files sp) \<union> set (val_files sp) \<union> set (test_files sp)"
    using split_types_cover [OF assms(5) st] by blast
  with m u g show ?thesis by blast
qed

theorem unknown_record_is_split_witness:
  "\<not> ratios_rejected (rotating :: (nat, nat) runtime) (1/2) (1/4) (1/4) \<and>
   (0::nat) \<in> set [0, 1, 2, 3] \<and>
   no_document_type (one_broken 0) \<and>
   displayable_types rotating one_broken [0, 1, 2, 3] \<and>
   shuffle_permutes (rotating :: (nat, nat) runtime) \<and>
   get_document_type (one_broken 0) = JStr ''unknown'' \<and>
   group_by_type one_broken [0, 1, 2, 3] []
     = Inr [(KStr ''unknown'', [0]), (KStr ''invoice'', [1, 2, 3])] \<and>
   computed_split (main rotating 0 one_broken [0, 1, 2, 3] (1/2) (1/4) (1/4) 1 True)
     = Some \<lparr>train_files = [3], val_files = [], test_files = [0, 1, 2]\<rparr>"
proof -
  have h2: "(0::nat) \<in> set [0, 1, 2, 3]" by simp
  have h3: "no_document_type (one_broken 0)" by (simp add: one_broken_def)
  have h4: "displayable_types rotating one_broken [0, 1, 2, 3]"
    by (rule one_broken_displayable)
  have grp: "group_by_type one_broken [0, 1, 2, 3] []
     = Inr [(KStr ''unknown'', [0]), (KStr ''invoice'', [1, 2, 3])]"
    by code_simp
  have run: "computed_split (main rotating 0 one_broken [0, 1, 2, 3] (1/2) (1/4) (1/4) 1 True)
     = Some \<lparr>train_files = [3], val_files = [], test_files = [0, 1, 2]\<rparr>"
    by code_simp
  from unknown_record_is_split [OF rotating_accepts h2 h3 h4 rotating_permutes, of 0 1 True]
  have "get_document_type (one_broken 0) = JStr ''unknown''" by blast
  with rotating_accepts h2 h3 h4 rotating_permutes grp run show ?thesis by simp
qed

text \<open>Two files, the first with \<^verbatim>\<open>"document_type": null\<close>, the second unparsable, and
  the ratios 0.5, 0.25 and 0.25: the run raises \<^verbatim>\<open>TypeError\<close> and computes no split.\<close>

theorem unknown_next_to_null_counterexample:
  "no_document_type (null_and_broken 1) \<and>
   \<not> ratios_rejected (rotating :: (nat, nat) runtime) (1/2) (1/4) (1/4) \<and>
   main rotating 0 null_and_broken [0, 1] (1/2) (1/4) (1/4) 1 True = Raised TypeError \<and>
   computed_split (main rotating 0 null_and_broken [0, 1] (1/2) (1/4) (1/4) 1 True) = None"
proof -
  have "no_document_type (null_and_broken 1)" by (simp add: null_and_broken_def)
  moreover have "main rotating 0 null_and_broken [0, 1] (1/2) (1/4) (1/4) 1 True = Raised TypeError"
    by code_simp
  ultimately show ?thesis using rotating_accepts by simp
qed

end
